theory Spec2Isabelle
  imports Complex_Main "HOL-Library.AList"
begin

section \<open>The churn elasticity model of churn_model.py\<close>

text \<open>
  The module holds a table of pre-fitted coefficients and three functions: \<open>logistic\<close>,
  \<open>predict_churn_by_horizon\<close> and \<open>predict_churn_by_segment\<close>.

  Modelling conventions.
  \<^item> A Python float is a value of type \<open>real\<close>, and the arithmetic of the functions
    \<open>logistic\<close>, \<open>predict_churn_by_horizon\<close> and \<open>predict_churn_by_segment\<close> below is exact:
    \<open>exp\<close> is the real exponential where the source calls \<open>np.exp\<close>. Where a claim
    depends on the rounding of binary64 arithmetic, the subsection on binary64 evaluation
    gives the source's expressions with every operation rounded, and the claim is
    stated for both.
  \<^item> A value read from a caller's dictionary is a \<open>pyval\<close>: a float, an int (unbounded,
    as in Python), a string or \<open>None\<close>. Float arithmetic on an int converts it to a float
    first, which raises \<open>OverflowError\<close> for an int beyond the binary64 range; on a string
    or \<open>None\<close> it raises \<open>TypeError\<close>.
  \<^item> A dictionary the caller passes in is a map from keys to values. A dictionary the
    module builds is an association list in insertion order, since the source iterates
    over it; an assignment \<open>d[k] = v\<close> is \<open>AList.update k v d\<close>.
  \<^item> An exception is the left injection of a sum type.
\<close>

subsection \<open>Values, errors, dictionaries\<close>

datatype pyval = Num real | PyInt int | Str string | PyNone

datatype py_error = KeyError string | TypeError | OverflowError

type_synonym pydict = "string \<rightharpoonup> pyval"

text \<open>Sequencing of results: the first exception raised is the one that propagates.\<close>

definition bind_err :: "py_error + 'a \<Rightarrow> ('a \<Rightarrow> py_error + 'b) \<Rightarrow> py_error + 'b" where
  "bind_err m f = (case m of Inl e \<Rightarrow> Inl e | Inr v \<Rightarrow> f v)"

text \<open>\<open>d[k]\<close> raises \<open>KeyError\<close> on a missing key; \<open>d.get(k, default)\<close> does not.\<close>

definition subscript :: "(string \<rightharpoonup> 'v) \<Rightarrow> string \<Rightarrow> py_error + 'v" where
  "subscript d k = (case d k of None \<Rightarrow> Inl (KeyError k) | Some v \<Rightarrow> Inr v)"

definition dict_get :: "(string \<rightharpoonup> 'v) \<Rightarrow> string \<Rightarrow> 'v \<Rightarrow> 'v" where
  "dict_get d k dflt = (case d k of None \<Rightarrow> dflt | Some v \<Rightarrow> v)"

text \<open>
  The conversion of a number to a float. An int converts when its nearest binary64 value
  is finite, that is when its magnitude is below \<open>2^1024 - 2^970\<close>; a larger one raises
  \<open>OverflowError\<close> (\<open>int too large to convert to float\<close>).
\<close>

definition int_fits_float :: "int \<Rightarrow> bool" where
  "int_fits_float n \<longleftrightarrow> \<bar>n\<bar> < 2 ^ 1024 - 2 ^ 970"

fun as_float :: "pyval \<Rightarrow> py_error + real" where
  "as_float (Num v) = Inr v"
| "as_float (PyInt n) = (if int_fits_float n then Inr (of_int n) else Inl OverflowError)"
| "as_float (Str s) = Inl TypeError"
| "as_float PyNone = Inl TypeError"

text \<open>
  The arithmetic the source applies to caller-supplied values: a float times the value,
  a float minus the value, and \<open>abs\<close>. The first two convert the value to a float; \<open>abs\<close>
  of an int is an int, of any size.
\<close>

definition float_mul :: "real \<Rightarrow> pyval \<Rightarrow> py_error + real" where
  "float_mul c v = bind_err (as_float v) (\<lambda>x. Inr (c * x))"

definition float_sub :: "real \<Rightarrow> pyval \<Rightarrow> py_error + real" where
  "float_sub c v = bind_err (as_float v) (\<lambda>x. Inr (c - x))"

fun py_abs :: "pyval \<Rightarrow> py_error + real" where
  "py_abs (Num v) = Inr \<bar>v\<bar>"
| "py_abs (PyInt n) = Inr \<bar>of_int n\<bar>"
| "py_abs (Str s) = Inl TypeError"
| "py_abs PyNone = Inl TypeError"

subsection \<open>Strings\<close>

text \<open>
  \<open>s.replace(old, new)\<close> for a one-character \<open>old\<close>, the only way the source calls it, and
  \<open>s.lower()\<close> on ASCII text (the horizon names are ASCII).
\<close>

definition str_replace :: "char \<Rightarrow> string \<Rightarrow> string \<Rightarrow> string" where
  "str_replace old new s = concat (map (\<lambda>c. if c = old then new else [c]) s)"

definition lower_char :: "char \<Rightarrow> char" where
  "lower_char c =
     (case map_of (zip ''ABCDEFGHIJKLMNOPQRSTUVWXYZ'' ''abcdefghijklmnopqrstuvwxyz'') c of
        None \<Rightarrow> c
      | Some l \<Rightarrow> l)"

definition str_lower :: "string \<Rightarrow> string" where
  "str_lower s = map lower_char s"

subsection \<open>The coefficient table and the logistic function\<close>

definition CHURN_COEFFICIENTS :: "string \<rightharpoonup> real" where
  "CHURN_COEFFICIENTS = map_of
     [(''intercept'', - 2.944),
      (''price_change_pct'', 0.01),
      (''price_x_0_4wks'', 0.006),
      (''price_x_4_8wks'', 0.018),
      (''price_x_8_12wks'', 0.028),
      (''price_x_12plus'', 0.008)]"

definition logistic :: "real \<Rightarrow> real" where
  "logistic x = 1 / (1 + exp (- x))"

subsection \<open>predict_churn_by_horizon\<close>

record horizon_result =
  churn_rate :: real
  churn_uplift :: real
  churn_uplift_pp :: real

text \<open>The body of the loop over \<open>horizons.items()\<close>, for one horizon's coefficient.\<close>

definition horizon_body :: "pyval \<Rightarrow> pyval \<Rightarrow> real \<Rightarrow> py_error + horizon_result" where
  "horizon_body price_change_pct baseline_churn coef =
     bind_err (subscript CHURN_COEFFICIENTS ''intercept'') (\<lambda>intercept.
     bind_err (subscript CHURN_COEFFICIENTS ''price_change_pct'') (\<lambda>base_coef.
     bind_err (float_mul base_coef price_change_pct) (\<lambda>base_term.
     bind_err (float_mul coef price_change_pct) (\<lambda>lag_term.
       let log_odds = intercept + base_term + lag_term;
           churn_prob = logistic log_odds
       in bind_err (float_sub churn_prob baseline_churn) (\<lambda>uplift.
            Inr \<lparr>churn_rate = churn_prob,
                 churn_uplift = uplift,
                 churn_uplift_pp = uplift * 100\<rparr>)))))"

fun horizon_loop ::
  "pyval \<Rightarrow> pyval \<Rightarrow> (string \<times> real) list \<Rightarrow> (string \<times> horizon_result) list
     \<Rightarrow> py_error + (string \<times> horizon_result) list" where
  "horizon_loop price_change_pct baseline_churn [] results_by_horizon = Inr results_by_horizon"
| "horizon_loop price_change_pct baseline_churn ((horizon_name, coef) # rest) results_by_horizon =
     (case horizon_body price_change_pct baseline_churn coef of
        Inl e \<Rightarrow> Inl e
      | Inr r \<Rightarrow>
          horizon_loop price_change_pct baseline_churn rest
            (AList.update horizon_name r results_by_horizon))"

definition predict_churn_by_horizon :: "pydict \<Rightarrow> py_error + (string \<times> horizon_result) list" where
  "predict_churn_by_horizon scenario =
     (let price_change_pct = dict_get scenario ''price_change_pct'' (PyInt 0);
          baseline_churn = dict_get scenario ''baseline_churn'' (Num 0.05)
      in
      bind_err (subscript CHURN_COEFFICIENTS ''price_x_0_4wks'') (\<lambda>c1.
      bind_err (subscript CHURN_COEFFICIENTS ''price_x_4_8wks'') (\<lambda>c2.
      bind_err (subscript CHURN_COEFFICIENTS ''price_x_8_12wks'') (\<lambda>c3.
      bind_err (subscript CHURN_COEFFICIENTS ''price_x_12plus'') (\<lambda>c4.
        let horizons =
              [(''0-4 Weeks'', c1), (''4-8 Weeks'', c2), (''8-12 Weeks'', c3), (''12+ Weeks'', c4)]
        in horizon_loop price_change_pct baseline_churn horizons [])))))"

subsection \<open>predict_churn_by_segment\<close>

text \<open>
  Lines 91 and 92 of the source: the magnitude of the segment's elasticity (\<open>-2.0\<close> when
  the key is absent), capped at \<open>4.0\<close> and mapped linearly onto the multiplier.
\<close>

definition segment_multiplier :: "pydict \<Rightarrow> py_error + real" where
  "segment_multiplier segment =
     bind_err (py_abs (dict_get segment ''elasticity'' (Num (- 2.0)))) (\<lambda>elasticity.
       Inr (0.7 + (min elasticity 4.0 / 4.0) * 0.6))"

definition horizon_key :: "string \<Rightarrow> string" where
  "horizon_key horizon =
     str_lower (str_replace CHR ''+'' ''plus'' (str_replace CHR ''-'' ''_''
       (str_replace CHR '' '' ''_'' horizon)))"

text \<open>The inner loop: one scaled field per horizon, assigned into \<open>segment_result\<close>.\<close>

fun scale_loop ::
  "real \<Rightarrow> (string \<times> horizon_result) list \<Rightarrow> (string \<times> pyval) list \<Rightarrow> (string \<times> pyval) list" where
  "scale_loop multiplier [] segment_result = segment_result"
| "scale_loop multiplier ((horizon, values) # rest) segment_result =
     scale_loop multiplier rest
       (AList.update (''churn_'' @ horizon_key horizon)
          (Num (churn_uplift_pp values * multiplier)) segment_result)"

text \<open>The body of the loop over \<open>segments\<close>, in the source's order of evaluation.\<close>

definition segment_body :: "pydict \<Rightarrow> pydict \<Rightarrow> py_error + (string \<times> pyval) list" where
  "segment_body scenario segment =
     bind_err (predict_churn_by_horizon scenario) (\<lambda>horizons.
     bind_err (segment_multiplier segment) (\<lambda>multiplier.
     bind_err (subscript segment ''name'') (\<lambda>name.
     bind_err (subscript segment ''size'') (\<lambda>size.
       Inr (scale_loop multiplier horizons [(''name'', name), (''size'', size)])))))"

fun segment_loop ::
  "pydict \<Rightarrow> pydict list \<Rightarrow> (string \<times> pyval) list list \<Rightarrow> py_error + (string \<times> pyval) list list" where
  "segment_loop scenario [] results = Inr results"
| "segment_loop scenario (segment # rest) results =
     (case segment_body scenario segment of
        Inl e \<Rightarrow> Inl e
      | Inr segment_result \<Rightarrow> segment_loop scenario rest (results @ [segment_result]))"

definition predict_churn_by_segment ::
  "pydict \<Rightarrow> pydict list \<Rightarrow> py_error + (string \<times> pyval) list list" where
  "predict_churn_by_segment scenario segments = segment_loop scenario segments []"

subsection \<open>Binary64 evaluation\<close>

text \<open>
  Rounding to binary64: \<open>fl x\<close> is the double nearest to the real \<open>x\<close>, ties going to the
  even significand. A double of binade \<open>k\<close> is an integer multiple of \<open>2^(k - 52)\<close>; the
  binade of \<open>x\<close> is the exponent of the power of two at or below \<open>|x|\<close>, and is \<open>-1022\<close> for
  the subnormal numbers. \<open>pow2 k\<close> is \<open>2^k\<close> for an integer \<open>k\<close>, and \<open>rhe\<close> rounds a real to
  the nearest integer, a half going to the even neighbour. Infinities are not
  represented, so \<open>fl\<close> is the arithmetic of the program for magnitudes below \<open>2^1024\<close>.
\<close>

definition pow2 :: "int \<Rightarrow> real" where
  "pow2 k = (if 0 \<le> k then 2 ^ nat k else 1 / 2 ^ nat (- k))"

definition rhe :: "real \<Rightarrow> int" where
  "rhe x = (let f = \<lfloor>x\<rfloor>; r = x - of_int f in
              if r < 1 / 2 then f
              else if 1 / 2 < r then f + 1
              else if even f then f else f + 1)"

definition binade :: "real \<Rightarrow> int" where
  "binade x = max \<lfloor>log 2 \<bar>x\<bar>\<rfloor> (- 1022)"

definition fl :: "real \<Rightarrow> real" where
  "fl x = pow2 (binade x - 52) * of_int (rhe (x / pow2 (binade x - 52)))"

text \<open>
  The expressions of the source with every operation rounded. A decimal literal of the
  source denotes its nearest double, \<open>4.0\<close>, \<open>1\<close> and \<open>100\<close> being doubles already.
  \<open>log_odds_binary64\<close> is the sum bound to \<open>log_odds\<close> for the horizon's coefficient
  \<open>coef\<close>, \<open>logistic_binary64\<close> the function \<open>logistic\<close>, \<open>churn_rate_binary64\<close> the
  value bound to \<open>churn_prob\<close>, \<open>churn_uplift_pp_binary64\<close> the field \<open>churn_uplift_pp\<close>,
  and \<open>segment_multiplier_binary64\<close> line 92 for the magnitude \<open>elasticity\<close> of line 91.
  The result of \<open>np.exp\<close> is taken to be the correctly rounded exponential.
\<close>

definition log_odds_binary64 :: "real \<Rightarrow> real \<Rightarrow> real" where
  "log_odds_binary64 coef price_change_pct =
     fl (fl (fl (- 2.944) + fl (fl 0.01 * price_change_pct)) + fl (fl coef * price_change_pct))"

definition logistic_binary64 :: "real \<Rightarrow> real" where
  "logistic_binary64 x = fl (1 / fl (1 + fl (exp (- x))))"

definition churn_rate_binary64 :: "real \<Rightarrow> real \<Rightarrow> real" where
  "churn_rate_binary64 coef price_change_pct =
     logistic_binary64 (log_odds_binary64 coef price_change_pct)"

definition churn_uplift_pp_binary64 :: "real \<Rightarrow> real \<Rightarrow> real \<Rightarrow> real" where
  "churn_uplift_pp_binary64 coef price_change_pct baseline_churn =
     fl (fl (churn_rate_binary64 coef price_change_pct - baseline_churn) * 100)"

definition segment_multiplier_binary64 :: "real \<Rightarrow> real" where
  "segment_multiplier_binary64 elasticity =
     fl (fl 0.7 + fl (fl (min elasticity 4.0 / 4.0) * fl 0.6))"

section \<open>Auxiliary facts\<close>

subsection \<open>Evaluation of the table and of the loop body\<close>

lemma coefficient_lookups:
  "subscript CHURN_COEFFICIENTS ''intercept'' = Inr (- 2.944)"
  "subscript CHURN_COEFFICIENTS ''price_change_pct'' = Inr 0.01"
  "subscript CHURN_COEFFICIENTS ''price_x_0_4wks'' = Inr 0.006"
  "subscript CHURN_COEFFICIENTS ''price_x_4_8wks'' = Inr 0.018"
  "subscript CHURN_COEFFICIENTS ''price_x_8_12wks'' = Inr 0.028"
  "subscript CHURN_COEFFICIENTS ''price_x_12plus'' = Inr 0.008"
  by (simp_all add: subscript_def CHURN_COEFFICIENTS_def)

lemma bind_err_simps:
  "bind_err (Inl e) f = Inl e"
  "bind_err (Inr v) f = f v"
  by (simp_all add: bind_err_def)

lemma int_fits_float_zero: "int_fits_float 0"
  by (simp add: int_fits_float_def)

lemma horizon_body_Num:
  assumes "as_float price = Inr p" and "as_float base = Inr b"
  shows "horizon_body price base coef =
     Inr \<lparr>churn_rate = logistic (- 2.944 + 0.01 * p + coef * p),
          churn_uplift = logistic (- 2.944 + 0.01 * p + coef * p) - b,
          churn_uplift_pp = (logistic (- 2.944 + 0.01 * p + coef * p) - b) * 100\<rparr>"
  by (simp add: horizon_body_def float_mul_def float_sub_def assms coefficient_lookups
      bind_err_simps Let_def)

lemma predict_churn_by_horizon_Num:
  assumes "as_float (dict_get scenario ''price_change_pct'' (PyInt 0)) = Inr p"
      and "as_float (dict_get scenario ''baseline_churn'' (Num 0.05)) = Inr b"
  shows "predict_churn_by_horizon scenario =
     Inr (map (\<lambda>(horizon_name, coef).
            (horizon_name,
             \<lparr>churn_rate = logistic (- 2.944 + 0.01 * p + coef * p),
              churn_uplift = logistic (- 2.944 + 0.01 * p + coef * p) - b,
              churn_uplift_pp = (logistic (- 2.944 + 0.01 * p + coef * p) - b) * 100\<rparr>))
          [(''0-4 Weeks'', 0.006), (''4-8 Weeks'', 0.018),
           (''8-12 Weeks'', 0.028), (''12+ Weeks'', 0.008)])"
proof -
  note hb = horizon_body_Num [OF assms]
  show ?thesis
    unfolding predict_churn_by_horizon_def coefficient_lookups bind_err_simps Let_def
      horizon_loop.simps hb
    by simp
qed


subsection \<open>The real logistic function\<close>



lemma logistic_strict_mono: "x < y \<Longrightarrow> logistic x < logistic y"
proof -
  assume "x < y"
  then have "exp (- y) < exp (- x)" by simp
  then have "1 + exp (- y) < 1 + exp (- x)" by simp
  moreover have "0 < 1 + exp (- y)" by (simp add: add_pos_pos)
  ultimately show ?thesis unfolding logistic_def
    by (simp add: frac_less2)
qed

lemma exp_2944: "exp (2.944 :: real) < 19"
proof -
  obtain t where t: "\<bar>t\<bar> \<le> \<bar>2.944 :: real\<bar>"
    and e: "exp (2.944::real) = (\<Sum>m<20. 2.944 ^ m / fact m) + exp t / fact 20 * 2.944 ^ 20"
    using Maclaurin_exp_le [of "2.944" 20] by blast
  have "t \<le> 3" using t by simp
  then have "exp t \<le> exp 3" by simp
  also have "exp (3::real) = exp 1 ^ 3" using exp_of_nat_mult [of 3 "1::real"] by simp
  also have "\<dots> \<le> 3 ^ 3" by (rule power_mono) (simp_all add: exp_le)
  finally have b: "exp t \<le> 27" by simp
  have "exp t / fact 20 * 2.944 ^ 20 \<le> 27 / fact 20 * (2.944 ^ 20 :: real)"
    by (intro mult_right_mono divide_right_mono b) simp_all
  then have "exp (2.944::real) \<le> (\<Sum>m<20. 2.944 ^ m / fact m) + 27 / fact 20 * 2.944 ^ 20"
    using e by simp
  also have "\<dots> < 19"
    by (simp add: lessThan_nat_numeral lessThan_Suc fact_numeral power_divide)
  finally show ?thesis .
qed



subsection \<open>Results of the two functions\<close>

lemma horizon_body_Inl:
  assumes "(\<forall>p. as_float price \<noteq> Inr p) \<or> (\<forall>b. as_float base \<noteq> Inr b)"
  shows "\<exists>e. horizon_body price base coef = Inl e"
proof (cases "as_float price")
  case (Inl e)
  then show ?thesis
    by (simp add: horizon_body_def float_mul_def coefficient_lookups bind_err_simps)
next
  case p: (Inr p)
  with assms obtain e where "as_float base = Inl e"
    by (cases "as_float base") auto
  with p show ?thesis
    by (simp add: horizon_body_def float_mul_def float_sub_def coefficient_lookups
        bind_err_simps Let_def)
qed

lemma predict_churn_by_horizon_Inr:
  assumes "predict_churn_by_horizon scenario = Inr hs"
  shows "\<exists>p b. as_float (dict_get scenario ''price_change_pct'' (PyInt 0)) = Inr p
             \<and> as_float (dict_get scenario ''baseline_churn'' (Num 0.05)) = Inr b"
proof (rule ccontr)
  assume "\<not> ?thesis"
  then have "(\<forall>p. as_float (dict_get scenario ''price_change_pct'' (PyInt 0)) \<noteq> Inr p)
           \<or> (\<forall>b. as_float (dict_get scenario ''baseline_churn'' (Num 0.05)) \<noteq> Inr b)"
    by blast
  from horizon_body_Inl [OF this] obtain e where
    "horizon_body (dict_get scenario ''price_change_pct'' (PyInt 0))
       (dict_get scenario ''baseline_churn'' (Num 0.05)) (0.006) = Inl e"
    by blast
  then have "predict_churn_by_horizon scenario = Inl e"
    by (simp add: predict_churn_by_horizon_def coefficient_lookups bind_err_simps Let_def)
  with assms show False by simp
qed

lemma segment_multiplier_Num:
  "dict_get segment ''elasticity'' (Num (- 2.0)) = Num e \<Longrightarrow>
     segment_multiplier segment = Inr (0.7 + (min \<bar>e\<bar> 4.0 / 4.0) * 0.6)"
  by (simp add: segment_multiplier_def bind_err_simps)

subsection \<open>Two numeric bounds on the logistic function\<close>

lemma logistic_intercept_gt: "0.05 < logistic (- 2.944)"
proof -
  have "1 + exp (2.944::real) < 20" using exp_2944 by simp
  moreover have "0 < 1 + exp (2.944::real)" by (simp add: add_pos_pos)
  ultimately have "1 / 20 < 1 / (1 + exp (2.944::real))"
    by (simp add: frac_less2)
  then show ?thesis by (simp add: logistic_def)
qed

lemma logistic_2926_lt: "logistic (- 2.926) < 0.1"
proof -
  have "1 + 1.463 + (1.463::real)\<^sup>2 / 2 \<le> exp 1.463"
    by (rule exp_lower_Taylor_quadratic) simp
  moreover have "(3.5::real) \<le> 1 + 1.463 + (1.463::real)\<^sup>2 / 2"
    by (simp add: power2_eq_square)
  ultimately have low: "3.5 \<le> exp (1.463::real)" by linarith
  have "exp (2.926::real) = exp 1.463 * exp 1.463"
    by (simp add: exp_add [symmetric])
  moreover have "3.5 * 3.5 \<le> exp (1.463::real) * exp 1.463"
    using low by (intro mult_mono) simp_all
  ultimately have "13.25 \<le> 1 + exp (2.926::real)" by simp
  then have "1 / (1 + exp (2.926::real)) \<le> 1 / 13.25"
    by (intro divide_left_mono) (simp_all add: add_pos_pos)
  also have "\<dots> < (0.1::real)" by simp
  finally show ?thesis by (simp add: logistic_def)
qed

subsection \<open>The loop over the segments\<close>

lemma horizon_key_simps:
  "horizon_key ''0-4 Weeks'' = ''0_4_weeks''"
  "horizon_key ''4-8 Weeks'' = ''4_8_weeks''"
  "horizon_key ''8-12 Weeks'' = ''8_12_weeks''"
  "horizon_key ''12+ Weeks'' = ''12plus_weeks''"
  by (simp_all add: horizon_key_def str_replace_def str_lower_def lower_char_def)

lemma predict_churn_by_horizon_shape:
  assumes "predict_churn_by_horizon scenario = Inr hs"
  shows "\<exists>r1 r2 r3 r4.
           hs = [(''0-4 Weeks'', r1), (''4-8 Weeks'', r2), (''8-12 Weeks'', r3), (''12+ Weeks'', r4)]"
proof -
  obtain p b where "as_float (dict_get scenario ''price_change_pct'' (PyInt 0)) = Inr p"
      and "as_float (dict_get scenario ''baseline_churn'' (Num 0.05)) = Inr b"
    using predict_churn_by_horizon_Inr [OF assms] by blast
  from predict_churn_by_horizon_Num [OF this] assms show ?thesis by simp
qed

lemma scale_loop_horizons:
  "scale_loop m [(''0-4 Weeks'', r1), (''4-8 Weeks'', r2), (''8-12 Weeks'', r3), (''12+ Weeks'', r4)]
     [(''name'', n), (''size'', sz)] =
   [(''name'', n), (''size'', sz),
    (''churn_0_4_weeks'', Num (churn_uplift_pp r1 * m)),
    (''churn_4_8_weeks'', Num (churn_uplift_pp r2 * m)),
    (''churn_8_12_weeks'', Num (churn_uplift_pp r3 * m)),
    (''churn_12plus_weeks'', Num (churn_uplift_pp r4 * m))]"
  by (simp add: horizon_key_simps)

lemma segment_body_Inr_iff:
  "segment_body scenario segment = Inr r \<longleftrightarrow>
     (\<exists>hs m n sz. predict_churn_by_horizon scenario = Inr hs
        \<and> segment_multiplier segment = Inr m
        \<and> segment ''name'' = Some n \<and> segment ''size'' = Some sz
        \<and> r = scale_loop m hs [(''name'', n), (''size'', sz)])"
  by (auto simp: segment_body_def bind_err_def subscript_def split: sum.splits option.splits)

lemma segment_body_Inr_explicit:
  assumes "segment_body scenario segment = Inr r"
  shows "\<exists>r1 r2 r3 r4 m n sz.
           predict_churn_by_horizon scenario =
             Inr [(''0-4 Weeks'', r1), (''4-8 Weeks'', r2), (''8-12 Weeks'', r3), (''12+ Weeks'', r4)]
           \<and> segment_multiplier segment = Inr m
           \<and> segment ''name'' = Some n \<and> segment ''size'' = Some sz
           \<and> r = [(''name'', n), (''size'', sz),
                  (''churn_0_4_weeks'', Num (churn_uplift_pp r1 * m)),
                  (''churn_4_8_weeks'', Num (churn_uplift_pp r2 * m)),
                  (''churn_8_12_weeks'', Num (churn_uplift_pp r3 * m)),
                  (''churn_12plus_weeks'', Num (churn_uplift_pp r4 * m))]"
proof -
  obtain hs m n sz where hs: "predict_churn_by_horizon scenario = Inr hs"
      and m: "segment_multiplier segment = Inr m"
      and n: "segment ''name'' = Some n" and sz: "segment ''size'' = Some sz"
      and r: "r = scale_loop m hs [(''name'', n), (''size'', sz)]"
    using assms unfolding segment_body_Inr_iff by blast
  obtain r1 r2 r3 r4 where
    shape: "hs = [(''0-4 Weeks'', r1), (''4-8 Weeks'', r2), (''8-12 Weeks'', r3), (''12+ Weeks'', r4)]"
    using predict_churn_by_horizon_shape [OF hs] by blast
  show ?thesis
    using hs m n sz r unfolding shape scale_loop_horizons by blast
qed

lemma segment_loop_Inr_iff:
  "segment_loop scenario segments acc = Inr rs \<longleftrightarrow>
     (\<exists>rs'. rs = acc @ rs'
        \<and> list_all2 (\<lambda>segment r. segment_body scenario segment = Inr r) segments rs')"
proof (induction segments arbitrary: acc)
  case Nil
  then show ?case by auto
next
  case (Cons segment rest)
  show ?case
  proof (cases "segment_body scenario segment")
    case (Inl e)
    then show ?thesis by (auto simp: list_all2_Cons1)
  next
    case (Inr r)
    then show ?thesis by (auto simp: Cons.IH list_all2_Cons1)
  qed
qed

lemma predict_churn_by_segment_Inr_iff:
  "predict_churn_by_segment scenario segments = Inr rs \<longleftrightarrow>
     list_all2 (\<lambda>segment r. segment_body scenario segment = Inr r) segments rs"
  by (simp add: predict_churn_by_segment_def segment_loop_Inr_iff)

lemma segment_loop_first_error:
  assumes "\<forall>s \<in> set pre. \<exists>r. segment_body scenario s = Inr r"
      and "segment_body scenario segment = Inl e"
  shows "segment_loop scenario (pre @ segment # post) acc = Inl e"
  using assms by (induction pre arbitrary: acc) auto

subsection \<open>Evaluation of the segment loop\<close>

lemma segment_body_Num:
  assumes "as_float (dict_get scenario ''price_change_pct'' (PyInt 0)) = Inr p"
      and "as_float (dict_get scenario ''baseline_churn'' (Num 0.05)) = Inr b"
      and "dict_get segment ''elasticity'' (Num (- 2.0)) = Num e"
      and "segment ''name'' = Some n" and "segment ''size'' = Some sz"
  shows "segment_body scenario segment =
     Inr [(''name'', n), (''size'', sz),
          (''churn_0_4_weeks'',
             Num ((logistic (- 2.944 + 0.01 * p + 0.006 * p) - b) * 100 * (0.7 + (min \<bar>e\<bar> 4.0 / 4.0) * 0.6))),
          (''churn_4_8_weeks'',
             Num ((logistic (- 2.944 + 0.01 * p + 0.018 * p) - b) * 100 * (0.7 + (min \<bar>e\<bar> 4.0 / 4.0) * 0.6))),
          (''churn_8_12_weeks'',
             Num ((logistic (- 2.944 + 0.01 * p + 0.028 * p) - b) * 100 * (0.7 + (min \<bar>e\<bar> 4.0 / 4.0) * 0.6))),
          (''churn_12plus_weeks'',
             Num ((logistic (- 2.944 + 0.01 * p + 0.008 * p) - b) * 100 * (0.7 + (min \<bar>e\<bar> 4.0 / 4.0) * 0.6)))]"
  unfolding segment_body_def predict_churn_by_horizon_Num [OF assms(1,2)]
    segment_multiplier_Num [OF assms(3)]
  by (simp add: bind_err_simps subscript_def assms(4,5) horizon_key_simps)

lemma example_segments:
  "predict_churn_by_segment [''price_change_pct'' \<mapsto> Num 10]
      [[''name'' \<mapsto> Str ''Loyal'', ''size'' \<mapsto> Num 1200, ''elasticity'' \<mapsto> Num (- 1)],
       [''name'' \<mapsto> Str ''Casual'', ''size'' \<mapsto> Num 300]] =
    Inr [[(''name'', Str ''Loyal''), (''size'', Num 1200),
          (''churn_0_4_weeks'', Num ((logistic (- 2.784) - 0.05) * 100 * 0.85)),
          (''churn_4_8_weeks'', Num ((logistic (- 2.664) - 0.05) * 100 * 0.85)),
          (''churn_8_12_weeks'', Num ((logistic (- 2.564) - 0.05) * 100 * 0.85)),
          (''churn_12plus_weeks'', Num ((logistic (- 2.764) - 0.05) * 100 * 0.85))],
         [(''name'', Str ''Casual''), (''size'', Num 300),
          (''churn_0_4_weeks'', Num ((logistic (- 2.784) - 0.05) * 100)),
          (''churn_4_8_weeks'', Num ((logistic (- 2.664) - 0.05) * 100)),
          (''churn_8_12_weeks'', Num ((logistic (- 2.564) - 0.05) * 100)),
          (''churn_12plus_weeks'', Num ((logistic (- 2.764) - 0.05) * 100))]]"
  by (simp add: predict_churn_by_segment_def dict_get_def
        segment_body_Num [of _ 10 "0.05" _ "- 1" "Str ''Loyal''" "Num 1200"]
        segment_body_Num [of _ 10 "0.05" _ "- 2" "Str ''Casual''" "Num 300"])

lemma example_neutral_segment:
  "predict_churn_by_segment [''price_change_pct'' \<mapsto> Num 10, ''baseline_churn'' \<mapsto> Num 0.04]
      [[''name'' \<mapsto> Str ''Casual'', ''size'' \<mapsto> Num 300, ''elasticity'' \<mapsto> Num (- 2.0)]] =
    Inr [[(''name'', Str ''Casual''), (''size'', Num 300),
          (''churn_0_4_weeks'', Num ((logistic (- 2.784) - 0.04) * 100)),
          (''churn_4_8_weeks'', Num ((logistic (- 2.664) - 0.04) * 100)),
          (''churn_8_12_weeks'', Num ((logistic (- 2.564) - 0.04) * 100)),
          (''churn_12plus_weeks'', Num ((logistic (- 2.764) - 0.04) * 100))]]"
  by (simp add: predict_churn_by_segment_def dict_get_def
        segment_body_Num [of _ 10 "0.04" _ "- 2" "Str ''Casual''" "Num 300"])

lemma segment_body_name_size:
  assumes "segment_body scenario segment = Inr r"
  shows "map_of r ''name'' = segment ''name'' \<and> map_of r ''size'' = segment ''size''"
  using segment_body_Inr_explicit [OF assms] by auto

lemma predict_churn_by_segment_returns:
  assumes "as_float (dict_get scenario ''price_change_pct'' (PyInt 0)) = Inr p"
      and "as_float (dict_get scenario ''baseline_churn'' (Num 0.05)) = Inr b"
      and "\<forall>s \<in> set segments. (\<exists>e. dict_get s ''elasticity'' (Num (- 2.0)) = Num e)
              \<and> s ''name'' \<noteq> None \<and> s ''size'' \<noteq> None"
  shows "\<exists>results. predict_churn_by_segment scenario segments = Inr results"
proof -
  have "\<forall>s \<in> set segments. \<exists>r. segment_body scenario s = Inr r"
  proof
    fix s assume "s \<in> set segments"
    with assms(3) obtain e n sz where "dict_get s ''elasticity'' (Num (- 2.0)) = Num e"
        and "s ''name'' = Some n" and "s ''size'' = Some sz"
      by auto
    from segment_body_Num [OF assms(1,2) this] show "\<exists>r. segment_body scenario s = Inr r"
      by blast
  qed
  then have "\<exists>results. list_all2 (\<lambda>segment r. segment_body scenario segment = Inr r) segments results"
  proof (induction segments)
    case Nil
    then show ?case by simp
  next
    case (Cons s rest)
    then obtain r rs where "segment_body scenario s = Inr r"
        and "list_all2 (\<lambda>segment r. segment_body scenario segment = Inr r) rest rs"
      by auto
    then have "list_all2 (\<lambda>segment r. segment_body scenario segment = Inr r) (s # rest) (r # rs)"
      by simp
    then show ?case by blast
  qed
  then show ?thesis by (simp add: predict_churn_by_segment_Inr_iff)
qed

lemma segment_multiplier_cong_elasticity:
  "s1 ''elasticity'' = s2 ''elasticity'' \<Longrightarrow> segment_multiplier s1 = segment_multiplier s2"
  by (simp add: segment_multiplier_def dict_get_def)

lemma segment_body_other_fields:
  assumes b1: "segment_body scenario s1 = Inr r1"
      and b2: "segment_body scenario s2 = Inr r2"
      and el: "s1 ''elasticity'' = s2 ''elasticity''"
      and k: "k \<noteq> ''name''" "k \<noteq> ''size''"
  shows "map_of r1 k = map_of r2 k"
proof -
  obtain a1 a2 a3 a4 m n sz where
      h1: "predict_churn_by_horizon scenario =
             Inr [(''0-4 Weeks'', a1), (''4-8 Weeks'', a2), (''8-12 Weeks'', a3), (''12+ Weeks'', a4)]"
      and m1: "segment_multiplier s1 = Inr m"
      and r1: "r1 = [(''name'', n), (''size'', sz),
                  (''churn_0_4_weeks'', Num (churn_uplift_pp a1 * m)),
                  (''churn_4_8_weeks'', Num (churn_uplift_pp a2 * m)),
                  (''churn_8_12_weeks'', Num (churn_uplift_pp a3 * m)),
                  (''churn_12plus_weeks'', Num (churn_uplift_pp a4 * m))]"
    using segment_body_Inr_explicit [OF b1] by blast
  obtain c1 c2 c3 c4 m' n' sz' where
      h2: "predict_churn_by_horizon scenario =
             Inr [(''0-4 Weeks'', c1), (''4-8 Weeks'', c2), (''8-12 Weeks'', c3), (''12+ Weeks'', c4)]"
      and m2: "segment_multiplier s2 = Inr m'"
      and r2: "r2 = [(''name'', n'), (''size'', sz'),
                  (''churn_0_4_weeks'', Num (churn_uplift_pp c1 * m')),
                  (''churn_4_8_weeks'', Num (churn_uplift_pp c2 * m')),
                  (''churn_8_12_weeks'', Num (churn_uplift_pp c3 * m')),
                  (''churn_12plus_weeks'', Num (churn_uplift_pp c4 * m'))]"
    using segment_body_Inr_explicit [OF b2] by blast
  from h1 h2 have "a1 = c1" "a2 = c2" "a3 = c3" "a4 = c4" by simp_all
  moreover from m1 m2 segment_multiplier_cong_elasticity [of s1 s2, OF el] have "m = m'" by simp
  ultimately show ?thesis unfolding r1 r2 using k by simp
qed

lemma example_renamed_segment_A:
  "predict_churn_by_segment Map.empty
      [[''name'' \<mapsto> Str ''A'', ''size'' \<mapsto> Num 10, ''elasticity'' \<mapsto> Num (- 4)]] =
    Inr [[(''name'', Str ''A''), (''size'', Num 10),
          (''churn_0_4_weeks'', Num ((logistic (- 2.944) - 0.05) * 100 * 1.3)),
          (''churn_4_8_weeks'', Num ((logistic (- 2.944) - 0.05) * 100 * 1.3)),
          (''churn_8_12_weeks'', Num ((logistic (- 2.944) - 0.05) * 100 * 1.3)),
          (''churn_12plus_weeks'', Num ((logistic (- 2.944) - 0.05) * 100 * 1.3))]]"
  by (simp add: predict_churn_by_segment_def dict_get_def
        segment_body_Num [of _ 0 "0.05" _ "- 4" "Str ''A''" "Num 10"]
        int_fits_float_zero)

lemma example_renamed_segment_B:
  "predict_churn_by_segment Map.empty
      [[''name'' \<mapsto> Str ''B'', ''size'' \<mapsto> Str ''large'', ''elasticity'' \<mapsto> Num (- 4)]] =
    Inr [[(''name'', Str ''B''), (''size'', Str ''large''),
          (''churn_0_4_weeks'', Num ((logistic (- 2.944) - 0.05) * 100 * 1.3)),
          (''churn_4_8_weeks'', Num ((logistic (- 2.944) - 0.05) * 100 * 1.3)),
          (''churn_8_12_weeks'', Num ((logistic (- 2.944) - 0.05) * 100 * 1.3)),
          (''churn_12plus_weeks'', Num ((logistic (- 2.944) - 0.05) * 100 * 1.3))]]"
  by (simp add: predict_churn_by_segment_def dict_get_def
        segment_body_Num [of _ 0 "0.05" _ "- 4" "Str ''B''" "Str ''large''"]
        int_fits_float_zero)

subsection \<open>Faults of the segment loop\<close>






lemma py_abs_nonneg: "py_abs v = Inr a \<Longrightarrow> 0 \<le> a"
  by (cases v) auto






subsection \<open>Rounding to binary64\<close>

lemma pow2_powr: "pow2 k = 2 powr (of_int k)"
proof (cases "0 \<le> k")
  case True
  then show ?thesis by (simp add: pow2_def powr_realpow [symmetric])
next
  case False
  then have "2 powr (of_int k) = 1 / (2::real) powr (of_int (- k))"
    by (simp add: powr_minus_divide)
  also have "\<dots> = 1 / 2 ^ nat (- k)"
    using False by (simp add: powr_realpow [symmetric])
  finally show ?thesis using False by (simp add: pow2_def)
qed

lemma pow2_pos: "0 < pow2 k"
  by (simp add: pow2_powr)

lemma pow2_add: "pow2 (j + k) = pow2 j * pow2 k"
  by (simp add: pow2_powr powr_add)

lemma rhe_near: "\<bar>x - of_int n\<bar> < 1 / 2 \<Longrightarrow> rhe x = n"
proof -
  assume a: "\<bar>x - of_int n\<bar> < 1 / 2"
  show ?thesis
  proof (cases "of_int n \<le> x")
    case True
    with a have "\<lfloor>x\<rfloor> = n" by (intro floor_unique; linarith)
    with a True show ?thesis by (simp add: rhe_def Let_def)
  next
    case False
    with a have f: "\<lfloor>x\<rfloor> = n - 1" by (intro floor_unique; simp; linarith)
    with a False show ?thesis by (simp add: rhe_def Let_def)
  qed
qed

lemma rhe_tie: "x = of_int n + 1 / 2 \<Longrightarrow> rhe x = (if even n then n else n + 1)"
proof -
  assume a: "x = of_int n + 1 / 2"
  then have "\<lfloor>x\<rfloor> = n" by (intro floor_unique) simp_all
  with a show ?thesis by (simp add: rhe_def Let_def)
qed

lemma binade_eq:
  assumes "pow2 k \<le> \<bar>x\<bar>" and "\<bar>x\<bar> < pow2 (k + 1)" and "- 1022 \<le> k"
  shows "binade x = k"
proof -
  have "0 < \<bar>x\<bar>" using assms(1) pow2_pos [of k] by linarith
  then have "\<lfloor>log 2 \<bar>x\<bar>\<rfloor> = k"
    using assms(1,2) by (simp add: floor_log_eq_powr_iff pow2_powr)
  with assms(3) show ?thesis by (simp add: binade_def)
qed

lemma fl_eval:
  assumes "pow2 k \<le> \<bar>x\<bar>" and "\<bar>x\<bar> < pow2 (k + 1)" and "- 1022 \<le> k"
  shows "fl x = pow2 (k - 52) * of_int (rhe (x / pow2 (k - 52)))"
  by (simp add: fl_def binade_eq [OF assms])

lemma rhe_of_int: "rhe (of_int n) = n"
  by (rule rhe_near) simp

lemma rhe_between: "\<lfloor>x\<rfloor> \<le> rhe x \<and> rhe x \<le> \<lfloor>x\<rfloor> + 1"
  by (simp add: rhe_def Let_def)

lemma rhe_mono:
  assumes "x \<le> y"
  shows "rhe x \<le> rhe y"
proof (cases "\<lfloor>x\<rfloor> = \<lfloor>y\<rfloor>")
  case True
  with assms have "x - of_int \<lfloor>x\<rfloor> \<le> y - of_int \<lfloor>y\<rfloor>" by simp
  with True show ?thesis by (simp add: rhe_def Let_def)
next
  case False
  with assms have "\<lfloor>x\<rfloor> < \<lfloor>y\<rfloor>" using floor_mono [of x y] by linarith
  with rhe_between [of x] rhe_between [of y] show ?thesis by linarith
qed

lemma rhe_neg: "rhe (- x) = - rhe x"
proof (cases "x = of_int \<lfloor>x\<rfloor>")
  case True
  then obtain n where "x = of_int n" ..
  then have "rhe (- x) = rhe (of_int (- n))" by simp
  also have "\<dots> = - n" by (rule rhe_of_int)
  finally show ?thesis using \<open>x = of_int n\<close> by (simp add: rhe_of_int)
next
  case False
  then have lt: "of_int \<lfloor>x\<rfloor> < x" using of_int_floor_le [of x] by linarith
  have "\<lfloor>- x\<rfloor> = - \<lfloor>x\<rfloor> - 1"
    using lt by (intro floor_unique; simp; linarith)
  then show ?thesis using lt by (auto simp add: rhe_def Let_def)
qed

lemma binade_neg: "binade (- x) = binade x"
  by (simp add: binade_def)

lemma fl_neg: "fl (- x) = - fl x"
  by (simp add: fl_def binade_neg rhe_neg)

lemma fl_zero: "fl 0 = 0"
  using rhe_of_int [of 0] by (simp add: fl_def)

lemma fl_nonneg: "0 \<le> x \<Longrightarrow> 0 \<le> fl x"
proof -
  assume "0 \<le> x"
  then have "0 \<le> x / pow2 (binade x - 52)" using pow2_pos [of "binade x - 52"] by simp
  then have "rhe 0 \<le> rhe (x / pow2 (binade x - 52))" by (rule rhe_mono)
  then have "0 \<le> rhe (x / pow2 (binade x - 52))" using rhe_of_int [of 0] by simp
  then show ?thesis using pow2_pos [of "binade x - 52"] by (simp add: fl_def)
qed

lemma binade_upper: "\<bar>x\<bar> < pow2 (binade x + 1)"
proof (cases "x = 0")
  case True
  then show ?thesis using pow2_pos [of "binade x + 1"] by simp
next
  case False
  have "log 2 \<bar>x\<bar> < of_int (\<lfloor>log 2 \<bar>x\<bar>\<rfloor> + 1)" by linarith
  also have "\<dots> \<le> of_int (binade x + 1)" by (simp add: binade_def)
  finally have "log 2 \<bar>x\<bar> < of_int (binade x + 1)" .
  then have "\<bar>x\<bar> < 2 powr of_int (binade x + 1)"
    using False by (simp add: log_less_iff)
  then show ?thesis by (simp add: pow2_powr)
qed

lemma binade_lower:
  assumes "- 1022 < binade x" and "x \<noteq> 0"
  shows "pow2 (binade x) \<le> \<bar>x\<bar>"
proof -
  have b: "binade x = \<lfloor>log 2 \<bar>x\<bar>\<rfloor>"
    using assms(1) by (simp add: binade_def max_def split: if_splits)
  have "of_int (binade x) \<le> log 2 \<bar>x\<bar>" unfolding b by simp
  then have "2 powr of_int (binade x) \<le> \<bar>x\<bar>"
    using assms(2) by (simp add: le_log_iff)
  then show ?thesis by (simp add: pow2_powr)
qed

lemma binade_mono:
  assumes "0 < x" and "x \<le> y"
  shows "binade x \<le> binade y"
proof -
  have "log 2 \<bar>x\<bar> \<le> log 2 \<bar>y\<bar>" using assms by simp
  then have "\<lfloor>log 2 \<bar>x\<bar>\<rfloor> \<le> \<lfloor>log 2 \<bar>y\<bar>\<rfloor>" by (rule floor_mono)
  then show ?thesis by (simp add: binade_def)
qed

lemma pow2_split: "pow2 (k + 1) = pow2 (k - 52) * 2 ^ 53" "pow2 k = pow2 (k - 52) * 2 ^ 52"
proof -
  have "pow2 (k + 1) = pow2 (k - 52) * pow2 53"
    using pow2_add [of "k - 52" 53] by (simp add: add.commute)
  then show "pow2 (k + 1) = pow2 (k - 52) * 2 ^ 53" by (simp add: pow2_def)
  have "pow2 k = pow2 (k - 52) * pow2 52"
    using pow2_add [of "k - 52" 52] by simp
  then show "pow2 k = pow2 (k - 52) * 2 ^ 52" by (simp add: pow2_def)
qed

lemma fl_upper:
  assumes "0 \<le> x"
  shows "fl x \<le> pow2 (binade x + 1)"
proof -
  let ?u = "pow2 (binade x - 52)"
  have u: "0 < ?u" by (rule pow2_pos)
  have s: "pow2 (binade x + 1) = ?u * 2 ^ 53" by (rule pow2_split)
  have "\<bar>x\<bar> < ?u * 2 ^ 53" using binade_upper [of x] unfolding s .
  then have "x < ?u * 2 ^ 53" by linarith
  then have "x / ?u \<le> of_int (2 ^ 53)" using u by (simp add: field_simps)
  then have "rhe (x / ?u) \<le> rhe (of_int (2 ^ 53))" by (rule rhe_mono)
  then have "rhe (x / ?u) \<le> 2 ^ 53" by (simp only: rhe_of_int)
  then have "(of_int (rhe (x / ?u)) :: real) \<le> of_int (2 ^ 53)" by (simp only: of_int_le_iff)
  then have "?u * of_int (rhe (x / ?u)) \<le> ?u * 2 ^ 53" using u by simp
  then show ?thesis unfolding s fl_def .
qed

lemma fl_lower:
  assumes "0 < y" and "- 1022 < binade y"
  shows "pow2 (binade y) \<le> fl y"
proof -
  let ?u = "pow2 (binade y - 52)"
  have u: "0 < ?u" by (rule pow2_pos)
  have s: "pow2 (binade y) = ?u * 2 ^ 52" by (rule pow2_split)
  have "pow2 (binade y) \<le> \<bar>y\<bar>" using assms by (intro binade_lower) simp_all
  then have "?u * 2 ^ 52 \<le> y" using assms(1) unfolding s by linarith
  then have "of_int (2 ^ 52) \<le> y / ?u" using u by (simp add: field_simps)
  then have "rhe (of_int (2 ^ 52)) \<le> rhe (y / ?u)" by (rule rhe_mono)
  then have "2 ^ 52 \<le> rhe (y / ?u)" by (simp only: rhe_of_int)
  then have "(of_int (2 ^ 52) :: real) \<le> of_int (rhe (y / ?u))" by (simp only: of_int_le_iff)
  then have "?u * 2 ^ 52 \<le> ?u * of_int (rhe (y / ?u))" using u by simp
  then show ?thesis unfolding s fl_def .
qed

lemma pow2_mono: "j \<le> k \<Longrightarrow> pow2 j \<le> pow2 k"
  by (simp add: pow2_powr)

lemma fl_mono_nonneg:
  assumes "0 \<le> x" and "x \<le> y"
  shows "fl x \<le> fl y"
proof (cases "x = 0")
  case True
  then show ?thesis using fl_nonneg [of y] assms by (simp add: fl_zero)
next
  case False
  with assms have pos: "0 < x" by simp
  have le: "binade x \<le> binade y" using pos assms(2) by (rule binade_mono)
  show ?thesis
  proof (cases "binade x = binade y")
    case True
    let ?u = "pow2 (binade y - 52)"
    have u: "0 < ?u" by (rule pow2_pos)
    have "x / ?u \<le> y / ?u" using assms(2) u by (simp add: divide_right_mono)
    then have "rhe (x / ?u) \<le> rhe (y / ?u)" by (rule rhe_mono)
    then have "?u * of_int (rhe (x / ?u)) \<le> ?u * of_int (rhe (y / ?u))" using u by simp
    then show ?thesis by (simp add: fl_def True)
  next
    case False
    with le have lt: "binade x + 1 \<le> binade y" by simp
    have "- 1022 \<le> binade x" by (simp add: binade_def)
    with lt have "- 1022 < binade y" by simp
    have "fl x \<le> pow2 (binade x + 1)" using assms(1) by (rule fl_upper)
    also have "\<dots> \<le> pow2 (binade y)" using lt by (rule pow2_mono)
    also have "\<dots> \<le> fl y" using pos assms(2) \<open>- 1022 < binade y\<close> by (intro fl_lower) simp_all
    finally show ?thesis .
  qed
qed

lemma fl_mono:
  assumes "x \<le> y"
  shows "fl x \<le> fl y"
proof (cases "0 \<le> x")
  case True
  then show ?thesis using assms by (rule fl_mono_nonneg)
next
  case x: False
  show ?thesis
  proof (cases "0 \<le> y")
    case True
    have "fl (- x) \<ge> 0" using x by (intro fl_nonneg) simp
    then have "fl x \<le> 0" by (simp add: fl_neg)
    also have "0 \<le> fl y" using True by (rule fl_nonneg)
    finally show ?thesis .
  next
    case False
    then have "fl (- y) \<le> fl (- x)" using assms by (intro fl_mono_nonneg) simp_all
    then show ?thesis by (simp add: fl_neg)
  qed
qed

lemma fl_near:
  assumes "pow2 k \<le> \<bar>x\<bar>" and "\<bar>x\<bar> < pow2 (k + 1)" and "- 1022 \<le> k"
      and "\<bar>x / pow2 (k - 52) - of_int n\<bar> < 1 / 2"
  shows "fl x = pow2 (k - 52) * of_int n"
  by (simp add: fl_eval [OF assms(1-3)] rhe_near [OF assms(4)])

lemma fl_tie_even:
  assumes "pow2 k \<le> \<bar>x\<bar>" and "\<bar>x\<bar> < pow2 (k + 1)" and "- 1022 \<le> k"
      and "x / pow2 (k - 52) = of_int n + 1 / 2" and "even n"
  shows "fl x = pow2 (k - 52) * of_int n"
  by (simp add: fl_eval [OF assms(1-3)] rhe_tie [OF assms(4)] assms(5))

lemma fl_0_7: "fl (0.7) = 6305039478318694 / 2 ^ 53"
proof -
  have "fl (0.7) = pow2 (-1 - 52) * of_int (rhe ((0.7) / pow2 (-1 - 52)))"
    by (rule fl_eval) (simp_all add: pow2_def)
  also have "rhe ((0.7) / pow2 (-1 - 52)) = 6305039478318694"
    by (rule rhe_near) (simp add: pow2_def)
  finally show ?thesis by (simp add: pow2_def)
qed

lemma fl_0_6: "fl (0.6) = 5404319552844595 / 2 ^ 53"
proof -
  have "fl (0.6) = pow2 (-1 - 52) * of_int (rhe ((0.6) / pow2 (-1 - 52)))"
    by (rule fl_eval) (simp_all add: pow2_def)
  also have "rhe ((0.6) / pow2 (-1 - 52)) = 5404319552844595"
    by (rule rhe_near) (simp add: pow2_def)
  finally show ?thesis by (simp add: pow2_def)
qed

lemma fl_1_3: "fl (1.3) = 5854679515581645 / 2 ^ 52"
proof -
  have "fl (1.3) = pow2 (0 - 52) * of_int (rhe ((1.3) / pow2 (0 - 52)))"
    by (rule fl_eval) (simp_all add: pow2_def)
  also have "rhe ((1.3) / pow2 (0 - 52)) = 5854679515581645"
    by (rule rhe_near) (simp add: pow2_def)
  finally show ?thesis by (simp add: pow2_def)
qed

lemma fl_0_01: "fl (0.01) = 5764607523034235 / 2 ^ 59"
proof -
  have "fl (0.01) = pow2 (-7 - 52) * of_int (rhe ((0.01) / pow2 (-7 - 52)))"
    by (rule fl_eval) (simp_all add: pow2_def)
  also have "rhe ((0.01) / pow2 (-7 - 52)) = 5764607523034235"
    by (rule rhe_near) (simp add: pow2_def)
  finally show ?thesis by (simp add: pow2_def)
qed

lemma fl_1e_18: "fl (1 / 10 ^ 18) = 5192296858534828 / 2 ^ 112"
proof -
  have "fl (1 / 10 ^ 18) = pow2 (-60 - 52) * of_int (rhe ((1 / 10 ^ 18) / pow2 (-60 - 52)))"
    by (rule fl_eval) (simp_all add: pow2_def)
  also have "rhe ((1 / 10 ^ 18) / pow2 (-60 - 52)) = 5192296858534828"
    by (rule rhe_near) (simp add: pow2_def)
  finally show ?thesis by (simp add: pow2_def)
qed

lemma fl_intercept: "fl (- 2.944) = - (6629298651489370 / 2 ^ 51)"
proof -
  have "fl (- 2.944) = pow2 (1 - 52) * of_int (rhe ((- 2.944) / pow2 (1 - 52)))"
    by (rule fl_eval) (simp_all add: pow2_def)
  also have "rhe ((- 2.944) / pow2 (1 - 52)) = - 6629298651489370"
    by (rule rhe_near) (simp add: pow2_def)
  finally show ?thesis by (simp add: pow2_def)
qed

lemma fl_0_028: "fl (0.028) = 8070450532247929 / 2 ^ 58"
proof -
  have "fl (0.028) = pow2 (-6 - 52) * of_int (rhe ((0.028) / pow2 (-6 - 52)))"
    by (rule fl_eval) (simp_all add: pow2_def)
  also have "rhe ((0.028) / pow2 (-6 - 52)) = 8070450532247929"
    by (rule rhe_near) (simp add: pow2_def)
  finally show ?thesis by (simp add: pow2_def)
qed

lemma fl_0_008: "fl (0.008) = 4611686018427388 / 2 ^ 59"
proof -
  have "fl (0.008) = pow2 (-7 - 52) * of_int (rhe ((0.008) / pow2 (-7 - 52)))"
    by (rule fl_eval) (simp_all add: pow2_def)
  also have "rhe ((0.008) / pow2 (-7 - 52)) = 4611686018427388"
    by (rule rhe_near) (simp add: pow2_def)
  finally show ?thesis by (simp add: pow2_def)
qed

lemma base_term_tiny: "fl (fl 0.01 * fl (1 / 10 ^ 18)) = 6646139978924580 / 2 ^ 119"
proof -
  have "fl (fl 0.01 * fl (1 / 10 ^ 18)) = pow2 (-67 - 52) * of_int 6646139978924580"
    unfolding fl_0_01 fl_1e_18 by (rule fl_near) (simp_all add: pow2_def)
  then show ?thesis by (simp add: pow2_def)
qed

lemma lag_term_tiny_8_12: "fl (fl 0.028 * fl (1 / 10 ^ 18)) = 4652297985247206 / 2 ^ 117"
proof -
  have "fl (fl 0.028 * fl (1 / 10 ^ 18)) = pow2 (-65 - 52) * of_int 4652297985247206"
    unfolding fl_0_028 fl_1e_18 by (rule fl_near) (simp_all add: pow2_def)
  then show ?thesis by (simp add: pow2_def)
qed

lemma lag_term_tiny_12plus: "fl (fl 0.008 * fl (1 / 10 ^ 18)) = 5316911983139664 / 2 ^ 119"
proof -
  have "fl (fl 0.008 * fl (1 / 10 ^ 18)) = pow2 (-67 - 52) * of_int 5316911983139664"
    unfolding fl_0_008 fl_1e_18 by (rule fl_near) (simp_all add: pow2_def)
  then show ?thesis by (simp add: pow2_def)
qed

lemma intercept_absorbs:
  assumes "0 \<le> t" and "t \<le> 1 / 2 ^ 60"
  shows "fl (fl (- 2.944) + t) = fl (- 2.944)"
proof -
  have "fl (- (6629298651489370 / 2 ^ 51) + t) = pow2 (1 - 52) * of_int (- 6629298651489370)"
  proof (rule fl_near)
    show "pow2 1 \<le> \<bar>- (6629298651489370 / 2 ^ 51) + t\<bar>"
      using assms by (simp add: pow2_def abs_if)
    show "\<bar>- (6629298651489370 / 2 ^ 51) + t\<bar> < pow2 (1 + 1)"
      using assms by (simp add: pow2_def abs_if)
    show "- 1022 \<le> (1::int)" by simp
    have "(- (6629298651489370 / 2 ^ 51) + t) / pow2 (1 - 52) - of_int (- 6629298651489370)
            = t * 2 ^ 51"
      by (simp add: pow2_def field_simps)
    moreover have "0 \<le> t * 2 ^ 51" using assms(1) by simp
    moreover have "t * 2 ^ 51 \<le> 1 / 2 ^ 60 * 2 ^ 51"
      using assms(2) by (intro mult_right_mono) simp_all
    ultimately show "\<bar>(- (6629298651489370 / 2 ^ 51) + t) / pow2 (1 - 52)
                       - of_int (- 6629298651489370)\<bar> < 1 / 2"
      by simp
  qed
  also have "pow2 (1 - 52) * of_int (- 6629298651489370) = - (6629298651489370 / 2 ^ 51)"
    by (simp add: pow2_def)
  finally show ?thesis unfolding fl_intercept .
qed

lemma log_odds_binary64_tiny_8_12:
  "log_odds_binary64 0.028 (fl (1 / 10 ^ 18)) = fl (- 2.944)"
proof -
  have a: "fl (fl (- 2.944) + 6646139978924580 / 2 ^ 119) = fl (- 2.944)"
    by (rule intercept_absorbs) simp_all
  have b: "fl (fl (- 2.944) + 4652297985247206 / 2 ^ 117) = fl (- 2.944)"
    by (rule intercept_absorbs) simp_all
  show ?thesis
    unfolding log_odds_binary64_def base_term_tiny lag_term_tiny_8_12 a b ..
qed

lemma log_odds_binary64_tiny_12plus:
  "log_odds_binary64 0.008 (fl (1 / 10 ^ 18)) = fl (- 2.944)"
proof -
  have a: "fl (fl (- 2.944) + 6646139978924580 / 2 ^ 119) = fl (- 2.944)"
    by (rule intercept_absorbs) simp_all
  have b: "fl (fl (- 2.944) + 5316911983139664 / 2 ^ 119) = fl (- 2.944)"
    by (rule intercept_absorbs) simp_all
  show ?thesis
    unfolding log_odds_binary64_def base_term_tiny lag_term_tiny_12plus a b ..
qed

lemma log_odds_binary64_zero: "log_odds_binary64 coef 0 = fl (- 2.944)"
proof -
  have a: "fl (fl (- 2.944) + 0) = fl (- 2.944)"
    by (rule intercept_absorbs) simp_all
  show ?thesis
    unfolding log_odds_binary64_def mult_zero_right fl_zero a ..
qed

lemma fl_one: "fl 1 = 1"
  using fl_near [of 0 1 "2 ^ 52"] by (simp add: pow2_def)

lemma fl_0_6_exact: "fl (5404319552844595 / 2 ^ 53) = 5404319552844595 / 2 ^ 53"
proof -
  have "fl (5404319552844595 / 2 ^ 53) = pow2 (- 1 - 52) * of_int 5404319552844595"
    by (rule fl_near) (simp_all add: pow2_def)
  also have "\<dots> = 5404319552844595 / 2 ^ 53" by (simp add: pow2_def)
  finally show ?thesis .
qed

lemma fl_0_7_exact: "fl (6305039478318694 / 2 ^ 53) = 6305039478318694 / 2 ^ 53"
proof -
  have "fl (6305039478318694 / 2 ^ 53) = pow2 (- 1 - 52) * of_int 6305039478318694"
    by (rule fl_near) (simp_all add: pow2_def)
  also have "\<dots> = 6305039478318694 / 2 ^ 53" by (simp add: pow2_def)
  finally show ?thesis .
qed

lemma fl_sum_0_7_0_6:
  "fl (6305039478318694 / 2 ^ 53 + 5404319552844595 / 2 ^ 53) = 5854679515581644 / 2 ^ 52"
proof -
  have "fl (6305039478318694 / 2 ^ 53 + 5404319552844595 / 2 ^ 53)
          = pow2 (0 - 52) * of_int 5854679515581644"
    by (rule fl_tie_even) (simp_all add: pow2_def)
  also have "\<dots> = 5854679515581644 / 2 ^ 52" by (simp add: pow2_def)
  finally show ?thesis .
qed

lemma segment_multiplier_binary64_4: "segment_multiplier_binary64 4 = 5854679515581644 / 2 ^ 52"
proof -
  have m: "min (4::real) 4.0 / 4.0 = 1" by simp
  show ?thesis
    unfolding segment_multiplier_binary64_def m fl_one mult_1 fl_0_6 fl_0_6_exact fl_0_7
      fl_sum_0_7_0_6 ..
qed

lemma segment_multiplier_binary64_0: "segment_multiplier_binary64 0 = fl 0.7"
proof -
  have m: "min (0::real) 4.0 / 4.0 = 0" by simp
  show ?thesis
    unfolding segment_multiplier_binary64_def m fl_zero mult_zero_left add_0_right
      fl_0_7 fl_0_7_exact ..
qed

lemma segment_multiplier_binary64_range:
  assumes "0 \<le> a"
  shows "fl 0.7 \<le> segment_multiplier_binary64 a \<and> segment_multiplier_binary64 a \<le> fl 1.3"
proof -
  let ?q = "fl (min a 4.0 / 4.0)"
  have "fl 0 \<le> ?q" using assms by (intro fl_mono) simp
  then have q0: "0 \<le> ?q" by (simp only: fl_zero)
  have "?q \<le> fl 1" by (rule fl_mono) simp
  then have q1: "?q \<le> 1" by (simp only: fl_one)
  have six: "0 \<le> fl 0.6" unfolding fl_0_6 by simp
  let ?t = "fl (?q * fl 0.6)"
  have "0 \<le> ?q * fl 0.6" using q0 six by (rule mult_nonneg_nonneg)
  then have "fl 0 \<le> ?t" by (rule fl_mono)
  then have t0: "0 \<le> ?t" by (simp only: fl_zero)
  have "?q * fl 0.6 \<le> 1 * fl 0.6" using q1 six by (rule mult_right_mono)
  then have "?t \<le> fl (fl 0.6)" by (intro fl_mono) simp
  then have t1: "?t \<le> 5404319552844595 / 2 ^ 53" unfolding fl_0_6 fl_0_6_exact .
  have "fl (fl 0.7 + 0) \<le> fl (fl 0.7 + ?t)" by (intro fl_mono add_left_mono t0)
  then have lo: "fl 0.7 \<le> fl (fl 0.7 + ?t)"
    unfolding add_0_right fl_0_7 fl_0_7_exact .
  have "fl (fl 0.7 + ?t) \<le> fl (fl 0.7 + 5404319552844595 / 2 ^ 53)"
    by (intro fl_mono add_left_mono t1)
  then have "fl (fl 0.7 + ?t) \<le> 5854679515581644 / 2 ^ 52"
    unfolding fl_0_7 fl_sum_0_7_0_6 .
  then have hi: "fl (fl 0.7 + ?t) \<le> fl 1.3"
    unfolding fl_1_3 by simp
  from lo hi show ?thesis unfolding segment_multiplier_binary64_def by simp
qed

lemma log_odds_binary64_mono:
  assumes "0 \<le> fl coef" and "p1 \<le> p2"
  shows "log_odds_binary64 coef p1 \<le> log_odds_binary64 coef p2"
proof -
  have "0 \<le> fl 0.01" by (rule fl_nonneg) simp
  then have "fl 0.01 * p1 \<le> fl 0.01 * p2" using assms(2) by (rule mult_left_mono [rotated])
  then have "fl (fl 0.01 * p1) \<le> fl (fl 0.01 * p2)" by (rule fl_mono)
  then have "fl (- 2.944) + fl (fl 0.01 * p1) \<le> fl (- 2.944) + fl (fl 0.01 * p2)"
    by (rule add_left_mono)
  then have a: "fl (fl (- 2.944) + fl (fl 0.01 * p1)) \<le> fl (fl (- 2.944) + fl (fl 0.01 * p2))"
    by (rule fl_mono)
  have "fl coef * p1 \<le> fl coef * p2" using assms(2,1) by (rule mult_left_mono)
  then have b: "fl (fl coef * p1) \<le> fl (fl coef * p2)" by (rule fl_mono)
  from a b have "fl (fl (- 2.944) + fl (fl 0.01 * p1)) + fl (fl coef * p1)
           \<le> fl (fl (- 2.944) + fl (fl 0.01 * p2)) + fl (fl coef * p2)"
    by (rule add_mono)
  then show ?thesis unfolding log_odds_binary64_def by (rule fl_mono)
qed

lemma log_odds_binary64_mono_coef:
  assumes "fl c1 \<le> fl c2" and "0 \<le> p"
  shows "log_odds_binary64 c1 p \<le> log_odds_binary64 c2 p"
proof -
  have "fl c1 * p \<le> fl c2 * p" using assms by (rule mult_right_mono)
  then have "fl (fl c1 * p) \<le> fl (fl c2 * p)" by (rule fl_mono)
  then have "fl (fl (- 2.944) + fl (fl 0.01 * p)) + fl (fl c1 * p)
           \<le> fl (fl (- 2.944) + fl (fl 0.01 * p)) + fl (fl c2 * p)"
    by (rule add_left_mono)
  then show ?thesis unfolding log_odds_binary64_def by (rule fl_mono)
qed

lemma logistic_binary64_denominator: "1 \<le> fl (1 + fl (exp (- x)))"
proof -
  have "0 \<le> fl (exp (- x))" by (rule fl_nonneg) simp
  then have "fl 1 \<le> fl (1 + fl (exp (- x)))" by (intro fl_mono) simp
  then show ?thesis by (simp only: fl_one)
qed

lemma logistic_binary64_mono:
  assumes "x \<le> y"
  shows "logistic_binary64 x \<le> logistic_binary64 y"
proof -
  have "exp (- y) \<le> exp (- x)" using assms by simp
  then have "fl (exp (- y)) \<le> fl (exp (- x))" by (rule fl_mono)
  then have "1 + fl (exp (- y)) \<le> 1 + fl (exp (- x))" by (rule add_left_mono)
  then have "fl (1 + fl (exp (- y))) \<le> fl (1 + fl (exp (- x)))" by (rule fl_mono)
  moreover have "0 < fl (1 + fl (exp (- y)))"
    using logistic_binary64_denominator [of y] by linarith
  ultimately have "1 / fl (1 + fl (exp (- x))) \<le> 1 / fl (1 + fl (exp (- y)))"
    by (intro divide_left_mono) (simp_all add: frac_le)
  then show ?thesis unfolding logistic_binary64_def by (rule fl_mono)
qed


lemma churn_rate_binary64_mono:
  assumes "0 \<le> fl coef" and "p1 \<le> p2"
  shows "churn_rate_binary64 coef p1 \<le> churn_rate_binary64 coef p2"
  unfolding churn_rate_binary64_def
  by (intro logistic_binary64_mono log_odds_binary64_mono assms)

lemma churn_uplift_pp_binary64_mono_coef:
  assumes "fl c1 \<le> fl c2" and "0 \<le> p"
  shows "churn_uplift_pp_binary64 c1 p b \<le> churn_uplift_pp_binary64 c2 p b"
proof -
  have "churn_rate_binary64 c1 p \<le> churn_rate_binary64 c2 p"
    unfolding churn_rate_binary64_def
    by (intro logistic_binary64_mono log_odds_binary64_mono_coef assms)
  then have "fl (churn_rate_binary64 c1 p - b) \<le> fl (churn_rate_binary64 c2 p - b)"
    by (intro fl_mono) simp
  then have "fl (churn_rate_binary64 c1 p - b) * 100 \<le> fl (churn_rate_binary64 c2 p - b) * 100"
    by simp
  then show ?thesis unfolding churn_uplift_pp_binary64_def by (rule fl_mono)
qed



section \<open>The claims\<close>







text \<open>
  C3, as stated, fails in the arithmetic of the program. For an elasticity of magnitude
  \<open>4.0\<close> the multiplier is the rounded sum of the doubles \<open>0.7\<close> and \<open>0.6\<close>. The exact sum
  lies halfway between two doubles and rounds to the lower one, \<open>1.2999999999999998\<close>,
  whereas the literal \<open>1.3\<close> is the upper one.
\<close>

theorem segment_multiplier_binary64_counterexample:
  "py_abs (dict_get [''elasticity'' \<mapsto> Num (- 4)] ''elasticity'' (Num (- 2.0))) = Inr 4
   \<and> segment_multiplier_binary64 4 = 5854679515581644 / 2 ^ 52
   \<and> fl 1.3 = 5854679515581645 / 2 ^ 52
   \<and> segment_multiplier_binary64 4 \<noteq> fl 1.3"
proof -
  have "py_abs (dict_get [''elasticity'' \<mapsto> Num (- 4)] ''elasticity'' (Num (- 2.0))) = Inr 4"
    by (simp add: dict_get_def)
  moreover note segment_multiplier_binary64_4 fl_1_3
  moreover have "segment_multiplier_binary64 4 \<noteq> fl 1.3"
    unfolding segment_multiplier_binary64_4 fl_1_3 by simp
  ultimately show ?thesis by (intro conjI)
qed

text \<open>
  C3, amended. For every segment whose \<open>elasticity\<close> is absent (then \<open>-2.0\<close>) or a number, of
  magnitude \<open>a\<close>, the multiplier computed in \<open>predict_churn_by_segment\<close> lies in the closed
  interval from \<open>0.7\<close> to \<open>1.3\<close>; for \<open>a \<ge> 4.0\<close> the clamp takes effect and the multiplier is
  the one of magnitude \<open>4.0\<close>; for \<open>a = 0\<close> it is \<open>0.7\<close>. This holds in exact arithmetic and in
  binary64, where the bounds are the doubles of \<open>0.7\<close> and \<open>1.3\<close> and the multiplier of
  magnitude \<open>4.0\<close> is \<open>1.2999999999999998\<close>.
\<close>

theorem segment_multiplier_range:
  assumes "py_abs (dict_get segment ''elasticity'' (Num (- 2.0))) = Inr a"
  shows "(\<exists>m. segment_multiplier segment = Inr m \<and> 0.7 \<le> m \<and> m \<le> 1.3)
         \<and> (4.0 \<le> a \<longrightarrow> segment_multiplier segment = segment_multiplier [''elasticity'' \<mapsto> Num 4.0])
         \<and> (a = 0 \<longrightarrow> segment_multiplier segment = Inr 0.7)
         \<and> fl 0.7 \<le> segment_multiplier_binary64 a
         \<and> segment_multiplier_binary64 a \<le> fl 1.3
         \<and> (4.0 \<le> a \<longrightarrow> segment_multiplier_binary64 a = segment_multiplier_binary64 4.0)
         \<and> (a = 0 \<longrightarrow> segment_multiplier_binary64 a = fl 0.7)"
proof -
  let ?m = "0.7 + (min a 4.0 / 4.0) * 0.6 :: real"
  have nonneg: "0 \<le> a" using assms by (rule py_abs_nonneg)
  have eq: "segment_multiplier segment = Inr ?m"
    using assms by (simp add: segment_multiplier_def bind_err_simps)
  have four: "segment_multiplier [''elasticity'' \<mapsto> Num 4.0] = Inr (0.7 + (min 4.0 4.0 / 4.0) * 0.6)"
    by (simp add: segment_multiplier_def dict_get_def bind_err_simps)
  have lo: "0.7 \<le> ?m" using nonneg by (simp add: min_def)
  have hi: "?m \<le> 1.3" by (simp add: min_def)
  from eq lo hi have range: "\<exists>m. segment_multiplier segment = Inr m \<and> 0.7 \<le> m \<and> m \<le> 1.3"
    by blast
  have cap: "4.0 \<le> a \<longrightarrow> segment_multiplier segment = segment_multiplier [''elasticity'' \<mapsto> Num 4.0]"
    unfolding eq four by (simp add: min_def)
  have zero: "a = 0 \<longrightarrow> segment_multiplier segment = Inr 0.7"
    unfolding eq by simp
  have blo: "fl 0.7 \<le> segment_multiplier_binary64 a"
    and bhi: "segment_multiplier_binary64 a \<le> fl 1.3"
    using segment_multiplier_binary64_range [OF nonneg] by simp_all
  have bcap: "4.0 \<le> a \<longrightarrow> segment_multiplier_binary64 a = segment_multiplier_binary64 4.0"
    by (simp add: segment_multiplier_binary64_def min_def)
  have bzero: "a = 0 \<longrightarrow> segment_multiplier_binary64 a = fl 0.7"
    using segment_multiplier_binary64_0 by simp
  from range cap zero blo bhi bcap bzero show ?thesis by (intro conjI)
qed

theorem segment_multiplier_range_witness:
  "py_abs (dict_get [''name'' \<mapsto> Str ''A'', ''elasticity'' \<mapsto> Num (- 6.5)]
       ''elasticity'' (Num (- 2.0))) = Inr 6.5
   \<and> (\<exists>m. segment_multiplier [''name'' \<mapsto> Str ''A'', ''elasticity'' \<mapsto> Num (- 6.5)] = Inr m
          \<and> 0.7 \<le> m \<and> m \<le> 1.3)
   \<and> segment_multiplier [''name'' \<mapsto> Str ''A'', ''elasticity'' \<mapsto> Num (- 6.5)] =
       segment_multiplier [''elasticity'' \<mapsto> Num 4.0]
   \<and> segment_multiplier_binary64 6.5 = segment_multiplier_binary64 4.0
   \<and> fl 0.7 \<le> segment_multiplier_binary64 6.5
   \<and> segment_multiplier_binary64 6.5 \<le> fl 1.3
   \<and> py_abs (dict_get [''name'' \<mapsto> Str ''C'', ''elasticity'' \<mapsto> PyInt 0]
       ''elasticity'' (Num (- 2.0))) = Inr 0
   \<and> segment_multiplier [''name'' \<mapsto> Str ''C'', ''elasticity'' \<mapsto> PyInt 0] = Inr 0.7
   \<and> segment_multiplier_binary64 0 = fl 0.7"
proof -
  have a: "py_abs (dict_get [''name'' \<mapsto> Str ''A'', ''elasticity'' \<mapsto> Num (- 6.5)]
       ''elasticity'' (Num (- 2.0))) = Inr 6.5"
    by (simp add: dict_get_def)
  have c: "py_abs (dict_get [''name'' \<mapsto> Str ''C'', ''elasticity'' \<mapsto> PyInt 0]
       ''elasticity'' (Num (- 2.0))) = Inr 0"
    by (simp add: dict_get_def)
  note ra = segment_multiplier_range
              [of "[''name'' \<mapsto> Str ''A'', ''elasticity'' \<mapsto> Num (- 6.5)]" "6.5", OF a]
  note rc = segment_multiplier_range
              [of "[''name'' \<mapsto> Str ''C'', ''elasticity'' \<mapsto> PyInt 0]" 0, OF c]
  have a4: "(4.0::real) \<le> 6.5" by simp
  from ra a4 have
      "\<exists>m. segment_multiplier [''name'' \<mapsto> Str ''A'', ''elasticity'' \<mapsto> Num (- 6.5)] = Inr m
          \<and> 0.7 \<le> m \<and> m \<le> 1.3"
      "segment_multiplier [''name'' \<mapsto> Str ''A'', ''elasticity'' \<mapsto> Num (- 6.5)] =
         segment_multiplier [''elasticity'' \<mapsto> Num 4.0]"
      "segment_multiplier_binary64 6.5 = segment_multiplier_binary64 4.0"
      "fl 0.7 \<le> segment_multiplier_binary64 6.5"
      "segment_multiplier_binary64 6.5 \<le> fl 1.3"
    by blast+
  moreover from rc have
      "segment_multiplier [''name'' \<mapsto> Str ''C'', ''elasticity'' \<mapsto> PyInt 0] = Inr 0.7"
      "segment_multiplier_binary64 0 = fl 0.7"
    by blast+
  ultimately show ?thesis using a c by (intro conjI)
qed

text \<open>
  C5, as stated, fails in the arithmetic of the program. For the prices \<open>0.0\<close> and \<open>1e-18\<close>
  the two price terms of the \<open>12+ Weeks\<close> horizon are far below the spacing of the doubles
  near \<open>-2.944\<close>, so that both log-odds are the double of \<open>-2.944\<close> and the two churn rates
  are the same number, although the second price is the larger one.
\<close>

theorem churn_rate_not_strictly_increasing_counterexample:
  "(0::real) < fl (1 / 10 ^ 18)
   \<and> log_odds_binary64 0.008 0 = fl (- 2.944)
   \<and> log_odds_binary64 0.008 (fl (1 / 10 ^ 18)) = fl (- 2.944)
   \<and> \<not> churn_rate_binary64 0.008 0 < churn_rate_binary64 0.008 (fl (1 / 10 ^ 18))"
proof -
  have "(0::real) < fl (1 / 10 ^ 18)" unfolding fl_1e_18 by simp
  moreover note log_odds_binary64_zero [of "0.008"] log_odds_binary64_tiny_12plus
  moreover have "\<not> churn_rate_binary64 0.008 0 < churn_rate_binary64 0.008 (fl (1 / 10 ^ 18))"
    unfolding churn_rate_binary64_def log_odds_binary64_zero log_odds_binary64_tiny_12plus
    by simp
  ultimately show ?thesis by (intro conjI)
qed

text \<open>
  C5, amended. With the baseline held fixed, the \<open>churn_rate\<close> of every horizon is
  nondecreasing in \<open>price_change_pct\<close>: for \<open>p1 < p2\<close>, each horizon's \<open>churn_rate\<close> computed
  from \<open>p1\<close> is at most the one computed from \<open>p2\<close>. This holds in exact arithmetic and in
  binary64.
\<close>

theorem churn_rate_mono:
  assumes "as_float (dict_get scenario1 ''price_change_pct'' (PyInt 0)) = Inr p1"
      and "as_float (dict_get scenario2 ''price_change_pct'' (PyInt 0)) = Inr p2"
      and "as_float (dict_get scenario1 ''baseline_churn'' (Num 0.05)) = Inr b"
      and "as_float (dict_get scenario2 ''baseline_churn'' (Num 0.05)) = Inr b"
      and "p1 < p2"
  shows "(\<exists>rs1 rs2. predict_churn_by_horizon scenario1 = Inr rs1
           \<and> predict_churn_by_horizon scenario2 = Inr rs2
           \<and> map fst rs1 = [''0-4 Weeks'', ''4-8 Weeks'', ''8-12 Weeks'', ''12+ Weeks'']
           \<and> list_all2 (\<lambda>(name1, r1) (name2, r2). name1 = name2 \<and> churn_rate r1 \<le> churn_rate r2)
                rs1 rs2)
         \<and> churn_rate_binary64 0.006 p1 \<le> churn_rate_binary64 0.006 p2
         \<and> churn_rate_binary64 0.018 p1 \<le> churn_rate_binary64 0.018 p2
         \<and> churn_rate_binary64 0.028 p1 \<le> churn_rate_binary64 0.028 p2
         \<and> churn_rate_binary64 0.008 p1 \<le> churn_rate_binary64 0.008 p2"
proof -
  have le: "p1 \<le> p2" using assms(5) by simp
  have exact: "\<exists>rs1 rs2. predict_churn_by_horizon scenario1 = Inr rs1
           \<and> predict_churn_by_horizon scenario2 = Inr rs2
           \<and> map fst rs1 = [''0-4 Weeks'', ''4-8 Weeks'', ''8-12 Weeks'', ''12+ Weeks'']
           \<and> list_all2 (\<lambda>(name1, r1) (name2, r2). name1 = name2 \<and> churn_rate r1 \<le> churn_rate r2)
                rs1 rs2"
    unfolding predict_churn_by_horizon_Num [OF assms(1) assms(3)]
              predict_churn_by_horizon_Num [OF assms(2) assms(4)]
    using assms(5) by (auto intro!: less_imp_le logistic_strict_mono)
  have b1: "churn_rate_binary64 0.006 p1 \<le> churn_rate_binary64 0.006 p2"
    by (intro churn_rate_binary64_mono fl_nonneg le) simp
  have b2: "churn_rate_binary64 0.018 p1 \<le> churn_rate_binary64 0.018 p2"
    by (intro churn_rate_binary64_mono fl_nonneg le) simp
  have b3: "churn_rate_binary64 0.028 p1 \<le> churn_rate_binary64 0.028 p2"
    by (intro churn_rate_binary64_mono fl_nonneg le) simp
  have b4: "churn_rate_binary64 0.008 p1 \<le> churn_rate_binary64 0.008 p2"
    by (intro churn_rate_binary64_mono fl_nonneg le) simp
  from exact b1 b2 b3 b4 show ?thesis by (intro conjI)
qed

theorem churn_rate_mono_witness:
  "(1::real) < 2
   \<and> predict_churn_by_horizon [''price_change_pct'' \<mapsto> Num 1] =
       Inr [(''0-4 Weeks'', \<lparr>churn_rate = logistic (- 2.928), churn_uplift = logistic (- 2.928) - 0.05,
                             churn_uplift_pp = (logistic (- 2.928) - 0.05) * 100\<rparr>),
            (''4-8 Weeks'', \<lparr>churn_rate = logistic (- 2.916), churn_uplift = logistic (- 2.916) - 0.05,
                             churn_uplift_pp = (logistic (- 2.916) - 0.05) * 100\<rparr>),
            (''8-12 Weeks'', \<lparr>churn_rate = logistic (- 2.906), churn_uplift = logistic (- 2.906) - 0.05,
                             churn_uplift_pp = (logistic (- 2.906) - 0.05) * 100\<rparr>),
            (''12+ Weeks'', \<lparr>churn_rate = logistic (- 2.926), churn_uplift = logistic (- 2.926) - 0.05,
                             churn_uplift_pp = (logistic (- 2.926) - 0.05) * 100\<rparr>)]
   \<and> predict_churn_by_horizon [''price_change_pct'' \<mapsto> Num 2] =
       Inr [(''0-4 Weeks'', \<lparr>churn_rate = logistic (- 2.912), churn_uplift = logistic (- 2.912) - 0.05,
                             churn_uplift_pp = (logistic (- 2.912) - 0.05) * 100\<rparr>),
            (''4-8 Weeks'', \<lparr>churn_rate = logistic (- 2.888), churn_uplift = logistic (- 2.888) - 0.05,
                             churn_uplift_pp = (logistic (- 2.888) - 0.05) * 100\<rparr>),
            (''8-12 Weeks'', \<lparr>churn_rate = logistic (- 2.868), churn_uplift = logistic (- 2.868) - 0.05,
                             churn_uplift_pp = (logistic (- 2.868) - 0.05) * 100\<rparr>),
            (''12+ Weeks'', \<lparr>churn_rate = logistic (- 2.908), churn_uplift = logistic (- 2.908) - 0.05,
                             churn_uplift_pp = (logistic (- 2.908) - 0.05) * 100\<rparr>)]
   \<and> logistic (- 2.928) \<le> logistic (- 2.912)
   \<and> logistic (- 2.916) \<le> logistic (- 2.888)
   \<and> logistic (- 2.906) \<le> logistic (- 2.868)
   \<and> logistic (- 2.926) \<le> logistic (- 2.908)
   \<and> churn_rate_binary64 0.006 1 \<le> churn_rate_binary64 0.006 2
   \<and> churn_rate_binary64 0.018 1 \<le> churn_rate_binary64 0.018 2
   \<and> churn_rate_binary64 0.028 1 \<le> churn_rate_binary64 0.028 2
   \<and> churn_rate_binary64 0.008 1 \<le> churn_rate_binary64 0.008 2"
  using churn_rate_mono [of "[''price_change_pct'' \<mapsto> Num 1]" 1
          "[''price_change_pct'' \<mapsto> Num 2]" 2 "0.05"]
  by (simp add: dict_get_def predict_churn_by_horizon_Num [of _ 1 "0.05"]
        predict_churn_by_horizon_Num [of _ 2 "0.05"])

text \<open>
  C6, as stated, fails in two ways. The uplift is measured against the caller's
  \<open>baseline_churn\<close>: for \<open>price_change_pct = 1\<close> and \<open>baseline_churn = 0.1\<close> the \<open>12+ Weeks\<close>
  rate is \<open>logistic (-2.926)\<close>, below \<open>0.1\<close>, so the \<open>12+ Weeks\<close> uplift is negative although
  the price change is positive. And in the arithmetic of the program the \<open>12+ Weeks\<close> uplift
  is not always lower than the \<open>8-12 Weeks\<close> one: for \<open>price_change_pct = 1e-18\<close> both
  log-odds are the double of \<open>-2.944\<close> and the two uplifts are the same number.
\<close>

theorem uplift_12plus_not_positive_counterexample:
  "(0::real) < 1
   \<and> predict_churn_by_horizon [''price_change_pct'' \<mapsto> Num 1, ''baseline_churn'' \<mapsto> Num 0.1] =
       Inr [(''0-4 Weeks'', \<lparr>churn_rate = logistic (- 2.928), churn_uplift = logistic (- 2.928) - 0.1,
                             churn_uplift_pp = (logistic (- 2.928) - 0.1) * 100\<rparr>),
            (''4-8 Weeks'', \<lparr>churn_rate = logistic (- 2.916), churn_uplift = logistic (- 2.916) - 0.1,
                             churn_uplift_pp = (logistic (- 2.916) - 0.1) * 100\<rparr>),
            (''8-12 Weeks'', \<lparr>churn_rate = logistic (- 2.906), churn_uplift = logistic (- 2.906) - 0.1,
                             churn_uplift_pp = (logistic (- 2.906) - 0.1) * 100\<rparr>),
            (''12+ Weeks'', \<lparr>churn_rate = logistic (- 2.926), churn_uplift = logistic (- 2.926) - 0.1,
                             churn_uplift_pp = (logistic (- 2.926) - 0.1) * 100\<rparr>)]
   \<and> (logistic (- 2.926) - 0.1) * 100 < 0
   \<and> (0::real) < fl (1 / 10 ^ 18)
   \<and> log_odds_binary64 0.008 (fl (1 / 10 ^ 18)) = fl (- 2.944)
   \<and> log_odds_binary64 0.028 (fl (1 / 10 ^ 18)) = fl (- 2.944)
   \<and> \<not> churn_uplift_pp_binary64 0.008 (fl (1 / 10 ^ 18)) (fl 0.05)
         < churn_uplift_pp_binary64 0.028 (fl (1 / 10 ^ 18)) (fl 0.05)"
proof -
  have "predict_churn_by_horizon [''price_change_pct'' \<mapsto> Num 1, ''baseline_churn'' \<mapsto> Num 0.1] =
       Inr [(''0-4 Weeks'', \<lparr>churn_rate = logistic (- 2.928), churn_uplift = logistic (- 2.928) - 0.1,
                             churn_uplift_pp = (logistic (- 2.928) - 0.1) * 100\<rparr>),
            (''4-8 Weeks'', \<lparr>churn_rate = logistic (- 2.916), churn_uplift = logistic (- 2.916) - 0.1,
                             churn_uplift_pp = (logistic (- 2.916) - 0.1) * 100\<rparr>),
            (''8-12 Weeks'', \<lparr>churn_rate = logistic (- 2.906), churn_uplift = logistic (- 2.906) - 0.1,
                             churn_uplift_pp = (logistic (- 2.906) - 0.1) * 100\<rparr>),
            (''12+ Weeks'', \<lparr>churn_rate = logistic (- 2.926), churn_uplift = logistic (- 2.926) - 0.1,
                             churn_uplift_pp = (logistic (- 2.926) - 0.1) * 100\<rparr>)]"
    by (simp add: predict_churn_by_horizon_Num [of _ 1 "0.1"] dict_get_def)
  moreover have "(logistic (- 2.926) - 0.1) * 100 < 0"
    using logistic_2926_lt by simp
  moreover have "(0::real) < fl (1 / 10 ^ 18)" unfolding fl_1e_18 by simp
  moreover note log_odds_binary64_tiny_12plus log_odds_binary64_tiny_8_12
  moreover have "\<not> churn_uplift_pp_binary64 0.008 (fl (1 / 10 ^ 18)) (fl 0.05)
         < churn_uplift_pp_binary64 0.028 (fl (1 / 10 ^ 18)) (fl 0.05)"
    unfolding churn_uplift_pp_binary64_def churn_rate_binary64_def
      log_odds_binary64_tiny_12plus log_odds_binary64_tiny_8_12 by simp
  ultimately show ?thesis by simp
qed

text \<open>
  C6, amended. For every scenario with \<open>price_change_pct > 0\<close> the \<open>churn_uplift_pp\<close> values
  satisfy \<open>8-12 Weeks \<ge> 4-8 Weeks \<ge> 0-4 Weeks\<close>, and the \<open>12+ Weeks\<close> uplift is at most the
  \<open>8-12 Weeks\<close> uplift, in exact arithmetic and in binary64; the \<open>12+ Weeks\<close> uplift is
  positive when \<open>baseline_churn\<close> is at most \<open>0.05\<close>, as it is by default.
\<close>

theorem horizon_uplift_ordering:
  assumes "as_float (dict_get scenario ''price_change_pct'' (PyInt 0)) = Inr p"
      and "as_float (dict_get scenario ''baseline_churn'' (Num 0.05)) = Inr b"
      and "0 < p"
  shows "(\<exists>r1 r2 r3 r4.
           predict_churn_by_horizon scenario =
             Inr [(''0-4 Weeks'', r1), (''4-8 Weeks'', r2), (''8-12 Weeks'', r3), (''12+ Weeks'', r4)]
           \<and> churn_uplift_pp r3 \<ge> churn_uplift_pp r2
           \<and> churn_uplift_pp r2 \<ge> churn_uplift_pp r1
           \<and> churn_uplift_pp r4 \<le> churn_uplift_pp r3
           \<and> (b \<le> 0.05 \<longrightarrow> 0 < churn_uplift_pp r4))
         \<and> churn_uplift_pp_binary64 0.028 p b \<ge> churn_uplift_pp_binary64 0.018 p b
         \<and> churn_uplift_pp_binary64 0.018 p b \<ge> churn_uplift_pp_binary64 0.006 p b
         \<and> churn_uplift_pp_binary64 0.008 p b \<le> churn_uplift_pp_binary64 0.028 p b"
proof -
  have a: "logistic (- 2.944 + 0.01 * p + 0.006 * p) < logistic (- 2.944 + 0.01 * p + 0.018 * p)"
    using assms(3) by (intro logistic_strict_mono) simp
  have b: "logistic (- 2.944 + 0.01 * p + 0.018 * p) < logistic (- 2.944 + 0.01 * p + 0.028 * p)"
    using assms(3) by (intro logistic_strict_mono) simp
  have c: "logistic (- 2.944 + 0.01 * p + 0.008 * p) < logistic (- 2.944 + 0.01 * p + 0.028 * p)"
    using assms(3) by (intro logistic_strict_mono) simp
  have "logistic (- 2.944) < logistic (- 2.944 + 0.01 * p + 0.008 * p)"
    using assms(3) by (intro logistic_strict_mono) simp
  then have d: "0.05 < logistic (- 2.944 + 0.01 * p + 0.008 * p)"
    using logistic_intercept_gt by linarith
  have exact: "\<exists>r1 r2 r3 r4.
           predict_churn_by_horizon scenario =
             Inr [(''0-4 Weeks'', r1), (''4-8 Weeks'', r2), (''8-12 Weeks'', r3), (''12+ Weeks'', r4)]
           \<and> churn_uplift_pp r3 \<ge> churn_uplift_pp r2
           \<and> churn_uplift_pp r2 \<ge> churn_uplift_pp r1
           \<and> churn_uplift_pp r4 \<le> churn_uplift_pp r3
           \<and> (b \<le> 0.05 \<longrightarrow> 0 < churn_uplift_pp r4)"
    unfolding predict_churn_by_horizon_Num [OF assms(1) assms(2)]
    using a b c d by simp
  have p: "0 \<le> p" using assms(3) by simp
  have b1: "churn_uplift_pp_binary64 0.018 p b \<le> churn_uplift_pp_binary64 0.028 p b"
    by (intro churn_uplift_pp_binary64_mono_coef fl_mono p) simp
  have b2: "churn_uplift_pp_binary64 0.006 p b \<le> churn_uplift_pp_binary64 0.018 p b"
    by (intro churn_uplift_pp_binary64_mono_coef fl_mono p) simp
  have b3: "churn_uplift_pp_binary64 0.008 p b \<le> churn_uplift_pp_binary64 0.028 p b"
    by (intro churn_uplift_pp_binary64_mono_coef fl_mono p) simp
  from exact b1 b2 b3 show ?thesis by (intro conjI)
qed

theorem horizon_uplift_ordering_witness:
  "(0::real) < 10 \<and> (0.05::real) \<le> 0.05
   \<and> predict_churn_by_horizon [''price_change_pct'' \<mapsto> Num 10] =
       Inr [(''0-4 Weeks'', \<lparr>churn_rate = logistic (- 2.784), churn_uplift = logistic (- 2.784) - 0.05,
                             churn_uplift_pp = (logistic (- 2.784) - 0.05) * 100\<rparr>),
            (''4-8 Weeks'', \<lparr>churn_rate = logistic (- 2.664), churn_uplift = logistic (- 2.664) - 0.05,
                             churn_uplift_pp = (logistic (- 2.664) - 0.05) * 100\<rparr>),
            (''8-12 Weeks'', \<lparr>churn_rate = logistic (- 2.564), churn_uplift = logistic (- 2.564) - 0.05,
                             churn_uplift_pp = (logistic (- 2.564) - 0.05) * 100\<rparr>),
            (''12+ Weeks'', \<lparr>churn_rate = logistic (- 2.764), churn_uplift = logistic (- 2.764) - 0.05,
                             churn_uplift_pp = (logistic (- 2.764) - 0.05) * 100\<rparr>)]
   \<and> (logistic (- 2.564) - 0.05) * 100 \<ge> (logistic (- 2.664) - 0.05) * 100
   \<and> (logistic (- 2.664) - 0.05) * 100 \<ge> (logistic (- 2.784) - 0.05) * 100
   \<and> (logistic (- 2.764) - 0.05) * 100 \<le> (logistic (- 2.564) - 0.05) * 100
   \<and> 0 < (logistic (- 2.764) - 0.05) * 100
   \<and> churn_uplift_pp_binary64 0.028 10 0.05 \<ge> churn_uplift_pp_binary64 0.018 10 0.05
   \<and> churn_uplift_pp_binary64 0.018 10 0.05 \<ge> churn_uplift_pp_binary64 0.006 10 0.05
   \<and> churn_uplift_pp_binary64 0.008 10 0.05 \<le> churn_uplift_pp_binary64 0.028 10 0.05"
  using horizon_uplift_ordering [of "[''price_change_pct'' \<mapsto> Num 10]" 10 "0.05"]
  by (simp add: dict_get_def predict_churn_by_horizon_Num [of _ 10 "0.05"])



text \<open>
  C8. For every input segment (number \<open>i\<close> of a call that returns) and each of the four
  horizons, the segment's result holds, under the key \<open>churn_\<close> followed by the horizon name
  with every blank and every hyphen replaced by an underscore, every plus sign by \<open>plus\<close>,
  and lowercased, that horizon's \<open>churn_uplift_pp\<close> multiplied by the segment multiplier. The
  four keys are \<open>churn_0_4_weeks\<close>, \<open>churn_4_8_weeks\<close>, \<open>churn_8_12_weeks\<close> and
  \<open>churn_12plus_weeks\<close>.
\<close>

theorem segment_result_fields:
  assumes "predict_churn_by_segment scenario segments = Inr results"
      and "i < length segments"
  shows "\<exists>r1 r2 r3 r4 m.
           predict_churn_by_horizon scenario =
             Inr [(''0-4 Weeks'', r1), (''4-8 Weeks'', r2), (''8-12 Weeks'', r3), (''12+ Weeks'', r4)]
           \<and> segment_multiplier (segments ! i) = Inr m
           \<and> map (\<lambda>horizon. ''churn_'' @ horizon_key horizon)
                 [''0-4 Weeks'', ''4-8 Weeks'', ''8-12 Weeks'', ''12+ Weeks''] =
               [''churn_0_4_weeks'', ''churn_4_8_weeks'', ''churn_8_12_weeks'', ''churn_12plus_weeks'']
           \<and> map_of (results ! i) (''churn_'' @ horizon_key ''0-4 Weeks'') =
                 Some (Num (churn_uplift_pp r1 * m))
           \<and> map_of (results ! i) (''churn_'' @ horizon_key ''4-8 Weeks'') =
                 Some (Num (churn_uplift_pp r2 * m))
           \<and> map_of (results ! i) (''churn_'' @ horizon_key ''8-12 Weeks'') =
                 Some (Num (churn_uplift_pp r3 * m))
           \<and> map_of (results ! i) (''churn_'' @ horizon_key ''12+ Weeks'') =
                 Some (Num (churn_uplift_pp r4 * m))"
proof -
  have "segment_body scenario (segments ! i) = Inr (results ! i)"
    using assms unfolding predict_churn_by_segment_Inr_iff
    by (rule list_all2_nthD)
  then obtain r1 r2 r3 r4 m n sz where
      hs: "predict_churn_by_horizon scenario =
             Inr [(''0-4 Weeks'', r1), (''4-8 Weeks'', r2), (''8-12 Weeks'', r3), (''12+ Weeks'', r4)]"
      and m: "segment_multiplier (segments ! i) = Inr m"
      and r: "results ! i = [(''name'', n), (''size'', sz),
                  (''churn_0_4_weeks'', Num (churn_uplift_pp r1 * m)),
                  (''churn_4_8_weeks'', Num (churn_uplift_pp r2 * m)),
                  (''churn_8_12_weeks'', Num (churn_uplift_pp r3 * m)),
                  (''churn_12plus_weeks'', Num (churn_uplift_pp r4 * m))]"
    using segment_body_Inr_explicit by blast
  show ?thesis
    unfolding hs m r by (simp add: horizon_key_simps)
qed

theorem segment_result_fields_witness:
  "predict_churn_by_segment [''price_change_pct'' \<mapsto> Num 10]
      [[''name'' \<mapsto> Str ''Loyal'', ''size'' \<mapsto> Num 1200, ''elasticity'' \<mapsto> Num (- 1)],
       [''name'' \<mapsto> Str ''Casual'', ''size'' \<mapsto> Num 300]] =
    Inr [[(''name'', Str ''Loyal''), (''size'', Num 1200),
          (''churn_0_4_weeks'', Num ((logistic (- 2.784) - 0.05) * 100 * 0.85)),
          (''churn_4_8_weeks'', Num ((logistic (- 2.664) - 0.05) * 100 * 0.85)),
          (''churn_8_12_weeks'', Num ((logistic (- 2.564) - 0.05) * 100 * 0.85)),
          (''churn_12plus_weeks'', Num ((logistic (- 2.764) - 0.05) * 100 * 0.85))],
         [(''name'', Str ''Casual''), (''size'', Num 300),
          (''churn_0_4_weeks'', Num ((logistic (- 2.784) - 0.05) * 100)),
          (''churn_4_8_weeks'', Num ((logistic (- 2.664) - 0.05) * 100)),
          (''churn_8_12_weeks'', Num ((logistic (- 2.564) - 0.05) * 100)),
          (''churn_12plus_weeks'', Num ((logistic (- 2.764) - 0.05) * 100))]]
   \<and> (0::nat) < length [[''name'' \<mapsto> Str ''Loyal'', ''size'' \<mapsto> Num 1200, ''elasticity'' \<mapsto> Num (- 1)],
                          [''name'' \<mapsto> Str ''Casual'', ''size'' \<mapsto> Num 300]]
   \<and> segment_multiplier [''name'' \<mapsto> Str ''Loyal'', ''size'' \<mapsto> Num 1200, ''elasticity'' \<mapsto> Num (- 1)]
        = Inr 0.85
   \<and> map (\<lambda>horizon. ''churn_'' @ horizon_key horizon)
         [''0-4 Weeks'', ''4-8 Weeks'', ''8-12 Weeks'', ''12+ Weeks''] =
       [''churn_0_4_weeks'', ''churn_4_8_weeks'', ''churn_8_12_weeks'', ''churn_12plus_weeks'']"
  using segment_result_fields [OF example_segments, of 0]
  by (simp add: example_segments segment_multiplier_Num [of _ "- 1"] dict_get_def horizon_key_simps)

text \<open>
  C4. For every scenario and every segment whose \<open>elasticity\<close> is \<open>-2.0\<close>, the segment multiplier
  is exactly \<open>1.0\<close>, and each scaled \<open>churn_\<close> field of the segment's result equals the unscaled
  \<open>churn_uplift_pp\<close> of that horizon from \<open>predict_churn_by_horizon\<close> on the same scenario.
\<close>

theorem neutral_segment_unscaled:
  assumes "predict_churn_by_segment scenario segments = Inr results"
      and "i < length segments"
      and "(segments ! i) ''elasticity'' = Some (Num (- 2.0))"
  shows "segment_multiplier (segments ! i) = Inr 1.0
         \<and> (\<exists>r1 r2 r3 r4.
               predict_churn_by_horizon scenario =
                 Inr [(''0-4 Weeks'', r1), (''4-8 Weeks'', r2), (''8-12 Weeks'', r3), (''12+ Weeks'', r4)]
               \<and> map_of (results ! i) ''churn_0_4_weeks'' = Some (Num (churn_uplift_pp r1))
               \<and> map_of (results ! i) ''churn_4_8_weeks'' = Some (Num (churn_uplift_pp r2))
               \<and> map_of (results ! i) ''churn_8_12_weeks'' = Some (Num (churn_uplift_pp r3))
               \<and> map_of (results ! i) ''churn_12plus_weeks'' = Some (Num (churn_uplift_pp r4)))"
proof -
  have one: "segment_multiplier (segments ! i) = Inr 1.0"
    using assms(3) by (simp add: segment_multiplier_Num [of _ "- 2"] dict_get_def)
  have "segment_body scenario (segments ! i) = Inr (results ! i)"
    using assms(1,2) unfolding predict_churn_by_segment_Inr_iff
    by (rule list_all2_nthD)
  then obtain r1 r2 r3 r4 m n sz where
      hs: "predict_churn_by_horizon scenario =
             Inr [(''0-4 Weeks'', r1), (''4-8 Weeks'', r2), (''8-12 Weeks'', r3), (''12+ Weeks'', r4)]"
      and m: "segment_multiplier (segments ! i) = Inr m"
      and r: "results ! i = [(''name'', n), (''size'', sz),
                  (''churn_0_4_weeks'', Num (churn_uplift_pp r1 * m)),
                  (''churn_4_8_weeks'', Num (churn_uplift_pp r2 * m)),
                  (''churn_8_12_weeks'', Num (churn_uplift_pp r3 * m)),
                  (''churn_12plus_weeks'', Num (churn_uplift_pp r4 * m))]"
    using segment_body_Inr_explicit by blast
  have "m = 1" using one m by simp
  then show ?thesis
    using one hs unfolding r by simp
qed

theorem neutral_segment_unscaled_witness:
  "predict_churn_by_segment [''price_change_pct'' \<mapsto> Num 10, ''baseline_churn'' \<mapsto> Num 0.04]
      [[''name'' \<mapsto> Str ''Casual'', ''size'' \<mapsto> Num 300, ''elasticity'' \<mapsto> Num (- 2.0)]] =
    Inr [[(''name'', Str ''Casual''), (''size'', Num 300),
          (''churn_0_4_weeks'', Num ((logistic (- 2.784) - 0.04) * 100)),
          (''churn_4_8_weeks'', Num ((logistic (- 2.664) - 0.04) * 100)),
          (''churn_8_12_weeks'', Num ((logistic (- 2.564) - 0.04) * 100)),
          (''churn_12plus_weeks'', Num ((logistic (- 2.764) - 0.04) * 100))]]
   \<and> (0::nat) < length [[''name'' \<mapsto> Str ''Casual'', ''size'' \<mapsto> Num 300, ''elasticity'' \<mapsto> Num (- 2.0)]]
   \<and> ([[''name'' \<mapsto> Str ''Casual'', ''size'' \<mapsto> Num 300, ''elasticity'' \<mapsto> Num (- 2.0)]] ! 0)
        ''elasticity'' = Some (Num (- 2.0))
   \<and> segment_multiplier [''name'' \<mapsto> Str ''Casual'', ''size'' \<mapsto> Num 300, ''elasticity'' \<mapsto> Num (- 2.0)]
        = Inr 1.0
   \<and> predict_churn_by_horizon [''price_change_pct'' \<mapsto> Num 10, ''baseline_churn'' \<mapsto> Num 0.04] =
       Inr [(''0-4 Weeks'', \<lparr>churn_rate = logistic (- 2.784), churn_uplift = logistic (- 2.784) - 0.04,
                             churn_uplift_pp = (logistic (- 2.784) - 0.04) * 100\<rparr>),
            (''4-8 Weeks'', \<lparr>churn_rate = logistic (- 2.664), churn_uplift = logistic (- 2.664) - 0.04,
                             churn_uplift_pp = (logistic (- 2.664) - 0.04) * 100\<rparr>),
            (''8-12 Weeks'', \<lparr>churn_rate = logistic (- 2.564), churn_uplift = logistic (- 2.564) - 0.04,
                             churn_uplift_pp = (logistic (- 2.564) - 0.04) * 100\<rparr>),
            (''12+ Weeks'', \<lparr>churn_rate = logistic (- 2.764), churn_uplift = logistic (- 2.764) - 0.04,
                             churn_uplift_pp = (logistic (- 2.764) - 0.04) * 100\<rparr>)]"
proof -
  let ?seg = "[''name'' \<mapsto> Str ''Casual'', ''size'' \<mapsto> Num 300, ''elasticity'' \<mapsto> Num (- 2.0)] :: pydict"
  note ex = example_neutral_segment
  have len: "(0::nat) < length [?seg]" by simp
  have el: "([?seg] ! 0) ''elasticity'' = Some (Num (- 2.0))" by simp
  have "segment_multiplier ([?seg] ! 0) = Inr 1.0"
    using neutral_segment_unscaled [OF ex len el] by (rule conjunct1)
  then have m: "segment_multiplier ?seg = Inr 1.0" by simp
  have hz: "predict_churn_by_horizon [''price_change_pct'' \<mapsto> Num 10, ''baseline_churn'' \<mapsto> Num 0.04] =
       Inr [(''0-4 Weeks'', \<lparr>churn_rate = logistic (- 2.784), churn_uplift = logistic (- 2.784) - 0.04,
                             churn_uplift_pp = (logistic (- 2.784) - 0.04) * 100\<rparr>),
            (''4-8 Weeks'', \<lparr>churn_rate = logistic (- 2.664), churn_uplift = logistic (- 2.664) - 0.04,
                             churn_uplift_pp = (logistic (- 2.664) - 0.04) * 100\<rparr>),
            (''8-12 Weeks'', \<lparr>churn_rate = logistic (- 2.564), churn_uplift = logistic (- 2.564) - 0.04,
                             churn_uplift_pp = (logistic (- 2.564) - 0.04) * 100\<rparr>),
            (''12+ Weeks'', \<lparr>churn_rate = logistic (- 2.764), churn_uplift = logistic (- 2.764) - 0.04,
                             churn_uplift_pp = (logistic (- 2.764) - 0.04) * 100\<rparr>)]"
    by (simp add: dict_get_def predict_churn_by_horizon_Num [of _ 10 "0.04"])
  from ex len el m hz show ?thesis by (intro conjI)
qed

text \<open>
  C9. Whenever \<open>predict_churn_by_segment\<close> returns, it returns exactly one result per input
  segment, in the order of the input: result number \<open>i\<close> is the one computed from segment
  number \<open>i\<close> and carries that segment's \<open>name\<close> and \<open>size\<close>, whatever these are. It does
  return for every scenario whose numbers are floats, or ints that convert to a float, and
  every sequence of segments that each provide \<open>name\<close> and \<open>size\<close> and a float
  \<open>elasticity\<close> or none.
\<close>

theorem segment_results_in_input_order:
  "(\<forall>results. predict_churn_by_segment scenario segments = Inr results \<longrightarrow>
       length results = length segments
       \<and> (\<forall>i < length segments.
             segment_body scenario (segments ! i) = Inr (results ! i)
             \<and> map_of (results ! i) ''name'' = (segments ! i) ''name''
             \<and> map_of (results ! i) ''size'' = (segments ! i) ''size''))
   \<and> ((\<exists>p b. as_float (dict_get scenario ''price_change_pct'' (PyInt 0)) = Inr p
              \<and> as_float (dict_get scenario ''baseline_churn'' (Num 0.05)) = Inr b)
        \<and> (\<forall>s \<in> set segments. (\<exists>e. dict_get s ''elasticity'' (Num (- 2.0)) = Num e)
              \<and> s ''name'' \<noteq> None \<and> s ''size'' \<noteq> None)
        \<longrightarrow> (\<exists>results. predict_churn_by_segment scenario segments = Inr results))"
proof -
  have order: "length results = length segments
       \<and> (\<forall>i < length segments.
             segment_body scenario (segments ! i) = Inr (results ! i)
             \<and> map_of (results ! i) ''name'' = (segments ! i) ''name''
             \<and> map_of (results ! i) ''size'' = (segments ! i) ''size'')"
    if r: "predict_churn_by_segment scenario segments = Inr results" for results
  proof -
    from r have all2:
      "list_all2 (\<lambda>segment r. segment_body scenario segment = Inr r) segments results"
      by (simp add: predict_churn_by_segment_Inr_iff)
    have "segment_body scenario (segments ! i) = Inr (results ! i)
             \<and> map_of (results ! i) ''name'' = (segments ! i) ''name''
             \<and> map_of (results ! i) ''size'' = (segments ! i) ''size''"
      if "i < length segments" for i
    proof -
      from all2 that have b: "segment_body scenario (segments ! i) = Inr (results ! i)"
        by (rule list_all2_nthD)
      with segment_body_name_size [OF b] show ?thesis by simp
    qed
    with all2 show ?thesis by (simp add: list_all2_lengthD)
  qed
  have returns: "\<exists>results. predict_churn_by_segment scenario segments = Inr results"
    if "(\<exists>p b. as_float (dict_get scenario ''price_change_pct'' (PyInt 0)) = Inr p
              \<and> as_float (dict_get scenario ''baseline_churn'' (Num 0.05)) = Inr b)
        \<and> (\<forall>s \<in> set segments. (\<exists>e. dict_get s ''elasticity'' (Num (- 2.0)) = Num e)
              \<and> s ''name'' \<noteq> None \<and> s ''size'' \<noteq> None)"
    using that predict_churn_by_segment_returns by blast
  from order returns show ?thesis by blast
qed


theorem segment_results_in_input_order_witness:
  "predict_churn_by_segment [''price_change_pct'' \<mapsto> Num 10]
      [[''name'' \<mapsto> Str ''Loyal'', ''size'' \<mapsto> Num 1200, ''elasticity'' \<mapsto> Num (- 1)],
       [''name'' \<mapsto> Str ''Casual'', ''size'' \<mapsto> Num 300]] =
    Inr [[(''name'', Str ''Loyal''), (''size'', Num 1200),
          (''churn_0_4_weeks'', Num ((logistic (- 2.784) - 0.05) * 100 * 0.85)),
          (''churn_4_8_weeks'', Num ((logistic (- 2.664) - 0.05) * 100 * 0.85)),
          (''churn_8_12_weeks'', Num ((logistic (- 2.564) - 0.05) * 100 * 0.85)),
          (''churn_12plus_weeks'', Num ((logistic (- 2.764) - 0.05) * 100 * 0.85))],
         [(''name'', Str ''Casual''), (''size'', Num 300),
          (''churn_0_4_weeks'', Num ((logistic (- 2.784) - 0.05) * 100)),
          (''churn_4_8_weeks'', Num ((logistic (- 2.664) - 0.05) * 100)),
          (''churn_8_12_weeks'', Num ((logistic (- 2.564) - 0.05) * 100)),
          (''churn_12plus_weeks'', Num ((logistic (- 2.764) - 0.05) * 100))]]
   \<and> as_float (dict_get [''price_change_pct'' \<mapsto> Num 10] ''price_change_pct'' (PyInt 0)) = Inr 10
   \<and> as_float (dict_get [''price_change_pct'' \<mapsto> Num 10] ''baseline_churn'' (Num 0.05)) = Inr 0.05
   \<and> dict_get [''name'' \<mapsto> Str ''Loyal'', ''size'' \<mapsto> Num 1200, ''elasticity'' \<mapsto> Num (- 1)]
        ''elasticity'' (Num (- 2.0)) = Num (- 1)
   \<and> dict_get [''name'' \<mapsto> Str ''Casual'', ''size'' \<mapsto> Num 300] ''elasticity'' (Num (- 2.0)) = Num (- 2.0)
   \<and> (\<exists>results. predict_churn_by_segment [''price_change_pct'' \<mapsto> Num 10]
          [[''name'' \<mapsto> Str ''Loyal'', ''size'' \<mapsto> Num 1200, ''elasticity'' \<mapsto> Num (- 1)],
           [''name'' \<mapsto> Str ''Casual'', ''size'' \<mapsto> Num 300]] = Inr results
        \<and> length results = 2
        \<and> map_of (results ! 0) ''name'' = Some (Str ''Loyal'')
        \<and> map_of (results ! 0) ''size'' = Some (Num 1200)
        \<and> map_of (results ! 1) ''name'' = Some (Str ''Casual'')
        \<and> map_of (results ! 1) ''size'' = Some (Num 300))"
proof -
  let ?sc = "[''price_change_pct'' \<mapsto> Num 10] :: pydict"
  let ?segs = "[[''name'' \<mapsto> Str ''Loyal'', ''size'' \<mapsto> Num 1200, ''elasticity'' \<mapsto> Num (- 1)],
       [''name'' \<mapsto> Str ''Casual'', ''size'' \<mapsto> Num 300]] :: pydict list"
  note inst = segment_results_in_input_order [of ?sc ?segs]
  have wf: "(\<exists>p b. as_float (dict_get ?sc ''price_change_pct'' (PyInt 0)) = Inr p
              \<and> as_float (dict_get ?sc ''baseline_churn'' (Num 0.05)) = Inr b)
        \<and> (\<forall>s \<in> set ?segs. (\<exists>e. dict_get s ''elasticity'' (Num (- 2.0)) = Num e)
              \<and> s ''name'' \<noteq> None \<and> s ''size'' \<noteq> None)"
  proof (intro conjI exI ballI)
    show "as_float (dict_get ?sc ''price_change_pct'' (PyInt 0)) = Inr 10"
      by (simp add: dict_get_def)
    show "as_float (dict_get ?sc ''baseline_churn'' (Num 0.05)) = Inr 0.05"
      by (simp add: dict_get_def)
    fix s assume "s \<in> set ?segs"
    then show "dict_get s ''elasticity'' (Num (- 2.0)) = Num (case s ''elasticity'' of Some (Num e) \<Rightarrow> e | _ \<Rightarrow> - 2.0)"
      and "s ''name'' \<noteq> None" and "s ''size'' \<noteq> None"
      by (auto simp: dict_get_def)
  qed
  with inst obtain results where r: "predict_churn_by_segment ?sc ?segs = Inr results"
    by blast
  with inst have len: "length results = length ?segs"
    and nth: "\<forall>i < length ?segs.
             segment_body ?sc (?segs ! i) = Inr (results ! i)
             \<and> map_of (results ! i) ''name'' = (?segs ! i) ''name''
             \<and> map_of (results ! i) ''size'' = (?segs ! i) ''size''"
    by blast+
  from nth have "map_of (results ! 0) ''name'' = (?segs ! 0) ''name''"
    and "map_of (results ! 0) ''size'' = (?segs ! 0) ''size''"
    and "map_of (results ! 1) ''name'' = (?segs ! 1) ''name''"
    and "map_of (results ! 1) ''size'' = (?segs ! 1) ''size''"
    by simp_all
  with r len have "\<exists>results. predict_churn_by_segment ?sc ?segs = Inr results
        \<and> length results = 2
        \<and> map_of (results ! 0) ''name'' = Some (Str ''Loyal'')
        \<and> map_of (results ! 0) ''size'' = Some (Num 1200)
        \<and> map_of (results ! 1) ''name'' = Some (Str ''Casual'')
        \<and> map_of (results ! 1) ''size'' = Some (Num 300)"
    by simp
  moreover note example_segments
  moreover have "as_float (dict_get ?sc ''price_change_pct'' (PyInt 0)) = Inr 10"
    and "as_float (dict_get ?sc ''baseline_churn'' (Num 0.05)) = Inr 0.05"
    and "dict_get (?segs ! 0) ''elasticity'' (Num (- 2.0)) = Num (- 1)"
    and "dict_get (?segs ! 1) ''elasticity'' (Num (- 2.0)) = Num (- 2.0)"
    by (simp_all add: dict_get_def)
  ultimately show ?thesis by simp
qed

text \<open>
  C10. The numeric \<open>churn_\<close> fields of a segment's result depend only on the scenario and on
  that segment's \<open>elasticity\<close>: for two calls with the same scenario whose segment lists agree
  position by position on \<open>elasticity\<close>, every field of corresponding results other than
  \<open>name\<close> and \<open>size\<close> is identical, whatever the names and sizes are; \<open>name\<close> and \<open>size\<close> are
  copied into the result unchanged.
\<close>

theorem churn_fields_independent_of_name_and_size:
  assumes "predict_churn_by_segment scenario segments1 = Inr results1"
      and "predict_churn_by_segment scenario segments2 = Inr results2"
      and "map (\<lambda>s. s ''elasticity'') segments1 = map (\<lambda>s. s ''elasticity'') segments2"
  shows "length results1 = length results2
         \<and> (\<forall>i < length results1.
               (\<forall>k. k \<noteq> ''name'' \<and> k \<noteq> ''size'' \<longrightarrow>
                   map_of (results1 ! i) k = map_of (results2 ! i) k)
               \<and> map_of (results1 ! i) ''name'' = (segments1 ! i) ''name''
               \<and> map_of (results1 ! i) ''size'' = (segments1 ! i) ''size''
               \<and> map_of (results2 ! i) ''name'' = (segments2 ! i) ''name''
               \<and> map_of (results2 ! i) ''size'' = (segments2 ! i) ''size'')"
proof -
  have a1: "list_all2 (\<lambda>segment r. segment_body scenario segment = Inr r) segments1 results1"
    and a2: "list_all2 (\<lambda>segment r. segment_body scenario segment = Inr r) segments2 results2"
    using assms(1,2) by (simp_all add: predict_churn_by_segment_Inr_iff)
  have l1: "length segments1 = length results1" and l2: "length segments2 = length results2"
    using a1 a2 by (simp_all add: list_all2_lengthD)
  have l12: "length segments1 = length segments2"
    using assms(3) by (rule map_eq_imp_length_eq)
  have step: "(\<forall>k. k \<noteq> ''name'' \<and> k \<noteq> ''size'' \<longrightarrow>
                   map_of (results1 ! i) k = map_of (results2 ! i) k)
               \<and> map_of (results1 ! i) ''name'' = (segments1 ! i) ''name''
               \<and> map_of (results1 ! i) ''size'' = (segments1 ! i) ''size''
               \<and> map_of (results2 ! i) ''name'' = (segments2 ! i) ''name''
               \<and> map_of (results2 ! i) ''size'' = (segments2 ! i) ''size''"
    if i: "i < length results1" for i
  proof -
    from i l1 have i1: "i < length segments1" by simp
    with l12 have i2: "i < length segments2" by simp
    from a1 i1 have b1: "segment_body scenario (segments1 ! i) = Inr (results1 ! i)"
      by (rule list_all2_nthD)
    from a2 i2 have b2: "segment_body scenario (segments2 ! i) = Inr (results2 ! i)"
      by (rule list_all2_nthD)
    have "map (\<lambda>s. s ''elasticity'') segments1 ! i = map (\<lambda>s. s ''elasticity'') segments2 ! i"
      using assms(3) by simp
    with i1 i2 have el: "(segments1 ! i) ''elasticity'' = (segments2 ! i) ''elasticity''"
      by simp
    show ?thesis
      using segment_body_other_fields [of scenario "segments1 ! i" "results1 ! i" "segments2 ! i" "results2 ! i", OF b1 b2 el]
        segment_body_name_size [OF b1] segment_body_name_size [OF b2]
      by simp
  qed
  from l1 l2 l12 step show ?thesis by simp
qed


theorem churn_fields_independent_of_name_and_size_witness:
  "predict_churn_by_segment Map.empty
      [[''name'' \<mapsto> Str ''A'', ''size'' \<mapsto> Num 10, ''elasticity'' \<mapsto> Num (- 4)]] =
    Inr [[(''name'', Str ''A''), (''size'', Num 10),
          (''churn_0_4_weeks'', Num ((logistic (- 2.944) - 0.05) * 100 * 1.3)),
          (''churn_4_8_weeks'', Num ((logistic (- 2.944) - 0.05) * 100 * 1.3)),
          (''churn_8_12_weeks'', Num ((logistic (- 2.944) - 0.05) * 100 * 1.3)),
          (''churn_12plus_weeks'', Num ((logistic (- 2.944) - 0.05) * 100 * 1.3))]]
   \<and> predict_churn_by_segment Map.empty
      [[''name'' \<mapsto> Str ''B'', ''size'' \<mapsto> Str ''large'', ''elasticity'' \<mapsto> Num (- 4)]] =
    Inr [[(''name'', Str ''B''), (''size'', Str ''large''),
          (''churn_0_4_weeks'', Num ((logistic (- 2.944) - 0.05) * 100 * 1.3)),
          (''churn_4_8_weeks'', Num ((logistic (- 2.944) - 0.05) * 100 * 1.3)),
          (''churn_8_12_weeks'', Num ((logistic (- 2.944) - 0.05) * 100 * 1.3)),
          (''churn_12plus_weeks'', Num ((logistic (- 2.944) - 0.05) * 100 * 1.3))]]
   \<and> map (\<lambda>s. s ''elasticity'')
         [[''name'' \<mapsto> Str ''A'', ''size'' \<mapsto> Num 10, ''elasticity'' \<mapsto> Num (- 4)]] =
       map (\<lambda>s. s ''elasticity'')
         [[''name'' \<mapsto> Str ''B'', ''size'' \<mapsto> Str ''large'', ''elasticity'' \<mapsto> Num (- 4)]]
   \<and> map_of [(''name'', Str ''A''), (''size'', Num 10),
          (''churn_0_4_weeks'', Num ((logistic (- 2.944) - 0.05) * 100 * 1.3)),
          (''churn_4_8_weeks'', Num ((logistic (- 2.944) - 0.05) * 100 * 1.3)),
          (''churn_8_12_weeks'', Num ((logistic (- 2.944) - 0.05) * 100 * 1.3)),
          (''churn_12plus_weeks'', Num ((logistic (- 2.944) - 0.05) * 100 * 1.3))] ''churn_8_12_weeks'' =
       map_of [(''name'', Str ''B''), (''size'', Str ''large''),
          (''churn_0_4_weeks'', Num ((logistic (- 2.944) - 0.05) * 100 * 1.3)),
          (''churn_4_8_weeks'', Num ((logistic (- 2.944) - 0.05) * 100 * 1.3)),
          (''churn_8_12_weeks'', Num ((logistic (- 2.944) - 0.05) * 100 * 1.3)),
          (''churn_12plus_weeks'', Num ((logistic (- 2.944) - 0.05) * 100 * 1.3))] ''churn_8_12_weeks''"
proof -
  let ?r1 = "[(''name'', Str ''A''), (''size'', Num 10),
          (''churn_0_4_weeks'', Num ((logistic (- 2.944) - 0.05) * 100 * 1.3)),
          (''churn_4_8_weeks'', Num ((logistic (- 2.944) - 0.05) * 100 * 1.3)),
          (''churn_8_12_weeks'', Num ((logistic (- 2.944) - 0.05) * 100 * 1.3)),
          (''churn_12plus_weeks'', Num ((logistic (- 2.944) - 0.05) * 100 * 1.3))]"
  let ?r2 = "[(''name'', Str ''B''), (''size'', Str ''large''),
          (''churn_0_4_weeks'', Num ((logistic (- 2.944) - 0.05) * 100 * 1.3)),
          (''churn_4_8_weeks'', Num ((logistic (- 2.944) - 0.05) * 100 * 1.3)),
          (''churn_8_12_weeks'', Num ((logistic (- 2.944) - 0.05) * 100 * 1.3)),
          (''churn_12plus_weeks'', Num ((logistic (- 2.944) - 0.05) * 100 * 1.3))]"
  note ex1 = example_renamed_segment_A
  note ex2 = example_renamed_segment_B
  have el: "map (\<lambda>s. s ''elasticity'')
         [[''name'' \<mapsto> Str ''A'', ''size'' \<mapsto> Num 10, ''elasticity'' \<mapsto> Num (- 4)]] =
       map (\<lambda>s. s ''elasticity'')
         [[''name'' \<mapsto> Str ''B'', ''size'' \<mapsto> Str ''large'', ''elasticity'' \<mapsto> Num (- 4)]]"
    by simp
  note inst = churn_fields_independent_of_name_and_size [OF ex1 ex2 el]
  from inst have "\<forall>k. k \<noteq> ''name'' \<and> k \<noteq> ''size'' \<longrightarrow>
      map_of ([?r1] ! 0) k =
      map_of ([?r2] ! 0) k"
    by simp
  then have "map_of ([?r1] ! 0) ''churn_8_12_weeks'' =
      map_of ([?r2] ! 0) ''churn_8_12_weeks''"
    by simp
  then have c: "map_of ?r1 ''churn_8_12_weeks'' =
       map_of ?r2 ''churn_8_12_weeks''"
    by simp
  from ex1 ex2 el c show ?thesis by (intro conjI)
qed

end
